theory Spec2Isabelle
  imports Main
begin

section \<open>Strings and numbers of the host language\<close>

text \<open>
  Text content and the user agent are lists of UTF-16 code units, since the source measures
  \<^verbatim>\<open>word.length\<close> and matches \<^verbatim>\<open>\s\<close> on them. Class names, attribute values
  and style property names are only ever compared for equality and are plain strings.
\<close>

type_synonym jsstring = "nat list"

definition js :: "string \<Rightarrow> jsstring" where
  "js s = map of_char s"

text \<open>The code units matched by \<^verbatim>\<open>\s\<close>: white space and line terminators.\<close>

definition is_space :: "nat \<Rightarrow> bool" where
  "is_space c \<longleftrightarrow>
     c \<in> {9, 10, 11, 12, 13, 32, 160, 5760, 8232, 8233, 8239, 8287, 12288, 65279}
     \<or> (8192 \<le> c \<and> c \<le> 8202)"

text \<open>
  \<^verbatim>\<open>text.split(/(\s+)/)\<close>: the pieces between the runs of white space, with the runs
  themselves (the capture group) in between. The result starts and ends with a piece that
  has no white space, possibly empty.
\<close>

function split_spaces :: "jsstring \<Rightarrow> jsstring \<Rightarrow> jsstring list" where
  "split_spaces piece [] = [rev piece]"
| "split_spaces piece (c # cs) =
     (if is_space c
      then rev piece # takeWhile is_space (c # cs) # split_spaces [] (dropWhile is_space cs)
      else split_spaces (c # piece) cs)"
  by pat_completeness auto
termination
  by (relation "measure (\<lambda>(piece, cs). length cs)")
     (auto simp: length_dropWhile_le less_Suc_eq_le)

definition split_words :: "jsstring \<Rightarrow> jsstring list" where
  "split_words text = split_spaces [] text"

text \<open>Decimal rendering of an integer, as \<^verbatim>\<open>n + 'px'\<close> converts the number.\<close>

definition digit_char :: "nat \<Rightarrow> char" where
  "digit_char d = char_of (48 + d)"

function show_nat :: "nat \<Rightarrow> string" where
  "show_nat n = (if n < 10 then [digit_char n] else show_nat (n div 10) @ [digit_char (n mod 10)])"
  by pat_completeness auto
termination
  by (relation "measure id") auto

definition show_int :: "int \<Rightarrow> string" where
  "show_int i = (if i < 0 then CHR ''-'' # show_nat (nat (- i)) else show_nat (nat i))"

text \<open>
  \<^verbatim>\<open>property.replace(/([A-Z])/g, '-$1').toLowerCase()\<close>: a hyphen before every capital
  letter, then everything in lower case.
\<close>

definition is_upper :: "char \<Rightarrow> bool" where
  "is_upper c \<longleftrightarrow> (65::nat) \<le> of_char c \<and> of_char c \<le> (90::nat)"

definition to_lower :: "char \<Rightarrow> char" where
  "to_lower c = (if is_upper c then char_of (of_char c + (32::nat)) else c)"

fun cssProperty :: "string \<Rightarrow> string" where
  "cssProperty [] = []"
| "cssProperty (c # cs) =
     (if is_upper c then CHR ''-'' # to_lower c # cssProperty cs
      else to_lower c # cssProperty cs)"

text \<open>
  A case-insensitive regular expression that is a plain alternative of ASCII words, tested
  anywhere in the subject. Without the unicode flag, two code units match when their
  upper-case forms agree, and no code unit outside ASCII folds to an ASCII letter.
\<close>

definition fold_case :: "nat \<Rightarrow> nat" where
  "fold_case c = (if 97 \<le> c \<and> c \<le> 122 then c - 32 else c)"

definition starts_with_ci :: "jsstring \<Rightarrow> jsstring \<Rightarrow> bool" where
  "starts_with_ci word subject \<longleftrightarrow>
     length word \<le> length subject
     \<and> map fold_case (take (length word) subject) = map fold_case word"

fun test_ci :: "jsstring list \<Rightarrow> jsstring \<Rightarrow> bool" where
  "test_ci alternatives [] = (\<exists>word \<in> set alternatives. starts_with_ci word [])"
| "test_ci alternatives (c # cs) =
     ((\<exists>word \<in> set alternatives. starts_with_ci word (c # cs)) \<or> test_ci alternatives cs)"

section \<open>The document\<close>

text \<open>
  The scripts never change the structure of the document, only inline styles. An element is
  a node of an immutable tree and carries an address that stands for its identity; the inline
  styles live in a store keyed by that address. Elements are HTML elements, whose
  \<^verbatim>\<open>tagName\<close> is in upper case.
\<close>

type_synonym addr = nat

datatype node =
    Element (addr: addr) (tagName: string) (elem_id: string)
            (data_message_id: "string option") (classList: "string list")
            (childNodes: "node list")
  | Text (textContent: jsstring)

fun children :: "node \<Rightarrow> node list" where
  "children (Element a tg i d cl cs) = cs"
| "children (Text s) = []"

text \<open>
  The elements below a node in document order, each paired with its parent element.
\<close>

fun elements_under :: "node \<Rightarrow> node \<Rightarrow> (node \<times> node) list" where
  "elements_under parent (Text s) = []"
| "elements_under parent (Element a tg i d cl cs) =
     (parent, Element a tg i d cl cs)
       # concat (map (elements_under (Element a tg i d cl cs)) cs)"

definition descendants_with_parent :: "node \<Rightarrow> (node \<times> node) list" where
  "descendants_with_parent n = concat (map (elements_under n) (children n))"

definition descendants :: "node \<Rightarrow> node list" where
  "descendants n = map snd (descendants_with_parent n)"

definition has_class :: "string \<Rightarrow> node \<Rightarrow> bool" where
  "has_class c n \<longleftrightarrow> (case n of Element a tg i d cl cs \<Rightarrow> c \<in> set cl | Text s \<Rightarrow> False)"

definition has_tag :: "string \<Rightarrow> node \<Rightarrow> bool" where
  "has_tag t n \<longleftrightarrow> (case n of Element a tg i d cl cs \<Rightarrow> tg = t | Text s \<Rightarrow> False)"

text \<open>\<^verbatim>\<open>element.querySelectorAll('.c')\<close>, \<^verbatim>\<open>element.querySelector('.c')\<close> and a type selector.\<close>

definition querySelectorAll :: "string \<Rightarrow> node \<Rightarrow> node list" where
  "querySelectorAll c n = filter (has_class c) (descendants n)"

definition querySelector :: "string \<Rightarrow> node \<Rightarrow> node option" where
  "querySelector c n = (case querySelectorAll c n of [] \<Rightarrow> None | e # es \<Rightarrow> Some e)"

definition querySelectorAll_tag :: "string \<Rightarrow> node \<Rightarrow> node list" where
  "querySelectorAll_tag t n = filter (has_tag t) (descendants n)"

text \<open>
  The text nodes below a text message, in document order, each with the element in which
  the upward walk of \<^verbatim>\<open>breakLongWords\<close> ends: the nearest enclosing element of class
  \<^verbatim>\<open>text-message\<close>. The walk is computed on the way down.
\<close>

fun text_nodes_under :: "node option \<Rightarrow> node \<Rightarrow> (node option \<times> jsstring) list" where
  "text_nodes_under owner (Text s) = [(owner, s)]"
| "text_nodes_under owner (Element a tg i d cl cs) =
     concat (map (text_nodes_under
       (if ''text-message'' \<in> set cl then Some (Element a tg i d cl cs) else owner)) cs)"

fun text_of :: "node \<Rightarrow> jsstring" where
  "text_of (Text s) = s"
| "text_of (Element a tg i d cl cs) = concat (map text_of cs)"

section \<open>The page\<close>

datatype error = DOMException

datatype log =
    Log_mobile_skipped
  | Log_mobile_started
  | Warn_mobile_message error
  | Warn_mobile_overflow addr int int
  | Warn_mobile_style string error
  | Warn_long_message error
  | Warn_long_overflow addr int int jsstring
  | Warn_long_style string error
  | Log_long_manual

text \<open>The closures that the scripts hand to the browser, one constructor each.\<close>

datatype callback =
    Mobile_startMobileFix
  | Mobile_orientationchange
  | Mobile_orientation_settled
  | Mobile_resize
  | Mobile_applyMobileFixes
  | Mobile_mutations
  | Mobile_reset_height node
  | Long_startMonitoring
  | Long_mutations
  | Long_fixAllMessages
  | Long_reset_height node

record mutation =
  mutation_type :: string
  addedNodes :: "node list"

type_synonym style = "string \<rightharpoonup> string \<times> string"

text \<open>
  The first group of fields is what the scripts read from the browser: the user agent, the
  touch capabilities, the viewport width, the loading state, the document (its root stands
  for the Document node, so every element is a descendant of it), the layout engine, which
  reports scroll and client height of an element for the inline styles of the moment, and
  the declarations on which \<^verbatim>\<open>style.setProperty\<close> raises. The second group is what they
  change: inline styles (property name to value and priority), console, timers, intervals,
  event listeners and observed subtrees. The last two groups are the fields of the two
  instances.
\<close>

record world =
  userAgent :: jsstring
  ontouchstart :: bool
  maxTouchPoints :: int
  innerWidth :: int
  readyState :: string
  document :: node
  layout :: "(addr \<Rightarrow> style) \<Rightarrow> addr \<Rightarrow> int \<times> int"
  style_raises :: "addr \<Rightarrow> string \<Rightarrow> bool"
  styles :: "addr \<Rightarrow> style"
  console :: "log list"
  timeouts :: "(callback \<times> nat) list"
  intervals :: "(callback \<times> nat) list"
  listeners :: "(string \<times> string \<times> callback) list"
  observed :: "(callback \<times> addr) list"
  m_isMobile :: bool
  m_isSmallScreen :: bool
  l_observer :: bool
  fixedElements :: "string set"
  l_isMobile :: bool

definition scrollHeight :: "node \<Rightarrow> world \<Rightarrow> int" where
  "scrollHeight el w = fst (layout w (styles w) (addr el))"

definition clientHeight :: "node \<Rightarrow> world \<Rightarrow> int" where
  "clientHeight el w = snd (layout w (styles w) (addr el))"

text \<open>
  \<^verbatim>\<open>style.setProperty\<close> raises when the declaration block cannot be modified, does
  nothing for a name that is no property of CSS, and stores the declaration otherwise.
  Vendor properties begin with a hyphen, so a name that begins with \<^verbatim>\<open>webkit-\<close> or
  \<^verbatim>\<open>moz-\<close> is no property: this is what the conversion of the names makes of
  \<^verbatim>\<open>webkitHyphens\<close>, \<^verbatim>\<open>mozHyphens\<close>, \<^verbatim>\<open>webkitLineClamp\<close> and
  \<^verbatim>\<open>webkitBoxOrient\<close>.
\<close>

definition unsupported :: "string \<Rightarrow> bool" where
  "unsupported property \<longleftrightarrow> take 7 property = ''webkit-'' \<or> take 4 property = ''moz-''"

definition setProperty :: "node \<Rightarrow> string \<Rightarrow> string \<Rightarrow> string \<Rightarrow> world \<Rightarrow> error + world" where
  "setProperty el property v priority w =
     (if style_raises w (addr el) property then Inl DOMException
      else if unsupported property then Inr w
      else Inr (w\<lparr>styles := (styles w)(addr el := (styles w (addr el))(property \<mapsto> (v, priority)))\<rparr>))"

definition warn :: "log \<Rightarrow> world \<Rightarrow> world" where
  "warn entry w = w\<lparr>console := console w @ [entry]\<rparr>"

definition setTimeout :: "callback \<Rightarrow> nat \<Rightarrow> world \<Rightarrow> world" where
  "setTimeout f delay w = w\<lparr>timeouts := timeouts w @ [(f, delay)]\<rparr>"

definition setInterval :: "callback \<Rightarrow> nat \<Rightarrow> world \<Rightarrow> world" where
  "setInterval f delay w = w\<lparr>intervals := intervals w @ [(f, delay)]\<rparr>"

definition addEventListener :: "string \<Rightarrow> string \<Rightarrow> callback \<Rightarrow> world \<Rightarrow> world" where
  "addEventListener target event f w = w\<lparr>listeners := listeners w @ [(target, event, f)]\<rparr>"

definition observe :: "callback \<Rightarrow> node \<Rightarrow> world \<Rightarrow> world" where
  "observe f target w = w\<lparr>observed := observed w @ [(f, addr target)]\<rparr>"

text \<open>Both classes define the same \<^verbatim>\<open>detectMobile\<close>.\<close>

definition isMobileUA :: "jsstring \<Rightarrow> bool" where
  "isMobileUA ua = test_ci (map js [''Android'', ''iPhone'', ''iPad'', ''iPod'', ''BlackBerry'',
     ''IEMobile'', ''Opera Mini'']) ua"

definition detectMobile :: "world \<Rightarrow> bool" where
  "detectMobile w \<longleftrightarrow>
     isMobileUA (userAgent w) \<or> ((ontouchstart w \<or> maxTouchPoints w > 0) \<and> innerWidth w \<le> 768)"

section \<open>MobileTextFix\<close>

definition applyMobileStyles :: "node \<Rightarrow> (string \<times> string) list \<Rightarrow> world \<Rightarrow> world" where
  "applyMobileStyles el entries w =
     fold (\<lambda>(property, v) w.
            case setProperty el (cssProperty property) v ''important'' w of
              Inr w' \<Rightarrow> w'
            | Inl e \<Rightarrow> warn (Warn_mobile_style property e) w)
          entries w"

definition checkMobileOverflow :: "node \<Rightarrow> world \<Rightarrow> world" where
  "checkMobileOverflow textMessage w =
     (if scrollHeight textMessage w > clientHeight textMessage w + 5
      then
        let w1 = warn (Warn_mobile_overflow (addr textMessage)
                        (scrollHeight textMessage w) (clientHeight textMessage w)) w;
            w2 = applyMobileStyles textMessage
                   [(''height'', ''auto''),
                    (''minHeight'', show_int (scrollHeight textMessage w1) @ ''px''),
                    (''overflow'', ''visible'')] w1
        in setTimeout (Mobile_reset_height textMessage) 100 w2
      else w)"

definition hasLongWord :: "jsstring \<Rightarrow> world \<Rightarrow> bool" where
  "hasLongWord text w \<longleftrightarrow>
     (\<exists>word \<in> set (split_words text).
        int (length word) > innerWidth w div 12 \<and> \<not> (\<exists>c \<in> set word. is_space c))"

text \<open>
  \<^verbatim>\<open>breakLongWords\<close> is only called on elements of class \<^verbatim>\<open>text-message\<close>, so the upward
  walk from a text node ends inside the subtree of its argument.
\<close>

definition breakLongWords :: "node \<Rightarrow> world \<Rightarrow> world" where
  "breakLongWords textMessage w =
     fold (\<lambda>(owner, text) w.
            if hasLongWord text w
            then (case owner of
                    Some parent \<Rightarrow> applyMobileStyles parent
                      [(''wordBreak'', ''break-all''), (''overflowWrap'', ''anywhere'')] w
                  | None \<Rightarrow> w)
            else w)
          (concat (map (text_nodes_under
             (if has_class ''text-message'' textMessage then Some textMessage else None))
             (children textMessage)))
          w"

definition mobileStyles :: "node \<Rightarrow> world \<Rightarrow> (string \<times> string) list" where
  "mobileStyles textMessage w =
     [(''maxHeight'', ''none''),
      (''height'', ''auto''),
      (''minHeight'', ''auto''),
      (''overflow'', ''visible''),
      (''overflowX'', ''visible''),
      (''overflowY'', ''visible''),
      (''wordBreak'', ''break-all''),
      (''overflowWrap'', ''anywhere''),
      (''webkitHyphens'', ''auto''),
      (''mozHyphens'', ''auto''),
      (''hyphens'', ''auto''),
      (''whiteSpace'', if has_class ''markdown-rendered'' textMessage then ''normal'' else ''pre-wrap'')]
     @ (if m_isSmallScreen w then [(''fontSize'', ''0.9rem''), (''lineHeight'', ''1.4'')] else [])"

definition linkStyles :: "world \<Rightarrow> (string \<times> string) list" where
  "linkStyles w =
     [(''wordBreak'', ''break-all''),
      (''overflowWrap'', ''anywhere''),
      (''whiteSpace'', ''normal''),
      (''fontSize'', if m_isSmallScreen w then ''0.85rem'' else ''inherit'')]"

definition fixMobileTextMessage :: "node \<Rightarrow> world \<Rightarrow> world" where
  "fixMobileTextMessage textMessage w =
     (let w1 = applyMobileStyles textMessage (mobileStyles textMessage w) w;
          w2 = fold (\<lambda>link w. applyMobileStyles link (linkStyles w) w)
                 (querySelectorAll_tag ''A'' textMessage) w1;
          w3 = breakLongWords textMessage w2
      in checkMobileOverflow textMessage w3)"

definition mobileMessageStyles :: "world \<Rightarrow> (string \<times> string) list" where
  "mobileMessageStyles w =
     [(''maxWidth'', if m_isSmallScreen w then ''95%'' else ''90%''),
      (''maxHeight'', ''none''),
      (''height'', ''auto''),
      (''overflow'', ''visible'')]"

definition mobileContentStyles :: "(string \<times> string) list" where
  "mobileContentStyles =
     [(''maxHeight'', ''none''),
      (''height'', ''auto''),
      (''overflow'', ''visible''),
      (''wordWrap'', ''break-word''),
      (''wordBreak'', ''break-word'')]"

text \<open>
  The body of the \<^verbatim>\<open>try\<close> block of \<^verbatim>\<open>fixMobileMessage\<close>. Every call in it that can raise
  sits inside the handler of \<^verbatim>\<open>applyMobileStyles\<close>, so the block ends normally; the result
  type keeps the handler of \<^verbatim>\<open>fixMobileMessage\<close> in the model all the same. An exception
  carries the page as it was when it was raised.
\<close>

definition fixMobileMessage_try :: "node \<Rightarrow> world \<Rightarrow> error \<times> world + world" where
  "fixMobileMessage_try messageElement w =
     (let w1 = applyMobileStyles messageElement (mobileMessageStyles w) w;
          w2 = (case querySelector ''message-content'' messageElement of
                  Some messageContent \<Rightarrow> applyMobileStyles messageContent mobileContentStyles w1
                | None \<Rightarrow> w1)
      in Inr (fold fixMobileTextMessage (querySelectorAll ''text-message'' messageElement) w2))"

definition fixMobileMessage :: "node \<Rightarrow> world \<Rightarrow> world" where
  "fixMobileMessage messageElement w =
     (case fixMobileMessage_try messageElement w of
        Inr w' \<Rightarrow> w'
      | Inl (e, w') \<Rightarrow> warn (Warn_mobile_message e) w')"

definition applyMobileFixes :: "world \<Rightarrow> world" where
  "applyMobileFixes w = fold fixMobileMessage (querySelectorAll ''message'' (document w)) w"

definition is_element :: "node \<Rightarrow> bool" where
  "is_element n \<longleftrightarrow> (case n of Element a tg i d cl cs \<Rightarrow> True | Text s \<Rightarrow> False)"

definition setupObserver :: "world \<Rightarrow> world" where
  "setupObserver w =
     (case querySelector ''message-list'' (document w) of
        Some messageList \<Rightarrow> observe Mobile_mutations messageList w
      | None \<Rightarrow> w)"

definition startMobileFix :: "world \<Rightarrow> world" where
  "startMobileFix w = setInterval Mobile_applyMobileFixes 3000 (setupObserver (applyMobileFixes w))"

definition mobile_init :: "world \<Rightarrow> world" where
  "mobile_init w =
     (if \<not> m_isMobile w then warn Log_mobile_skipped w
      else
        let w1 = warn Log_mobile_started w;
            w2 = (if readyState w1 = ''loading''
                  then addEventListener ''document'' ''DOMContentLoaded'' Mobile_startMobileFix w1
                  else startMobileFix w1);
            w3 = addEventListener ''window'' ''orientationchange'' Mobile_orientationchange w2
        in addEventListener ''window'' ''resize'' Mobile_resize w3)"

definition MobileTextFix :: "world \<Rightarrow> world" where
  "MobileTextFix w =
     mobile_init (w\<lparr>m_isMobile := detectMobile w, m_isSmallScreen := innerWidth w \<le> 480\<rparr>)"

section \<open>LongTextFix\<close>

definition fixElementStyles :: "node \<Rightarrow> (string \<times> string) list \<Rightarrow> world \<Rightarrow> world" where
  "fixElementStyles el entries w =
     fold (\<lambda>(property, v) w.
            case setProperty el (cssProperty property) v ''important'' w of
              Inr w' \<Rightarrow> w'
            | Inl e \<Rightarrow> warn (Warn_long_style property e) w)
          entries w"

text \<open>The body of the loop of \<^verbatim>\<open>checkForOverflow\<close>, for one text message.\<close>

definition checkForOverflow_each :: "node \<Rightarrow> world \<Rightarrow> world" where
  "checkForOverflow_each textMessage w =
     (if scrollHeight textMessage w > clientHeight textMessage w
      then
        let w1 = warn (Warn_long_overflow (addr textMessage)
                        (scrollHeight textMessage w) (clientHeight textMessage w)
                        (take 100 (text_of textMessage) @ js ''...'')) w;
            w2 = fixElementStyles textMessage
                   [(''height'', show_int (scrollHeight textMessage w1) @ ''px''),
                    (''minHeight'', show_int (scrollHeight textMessage w1) @ ''px'')] w1
        in setTimeout (Long_reset_height textMessage) 100 w2
      else w)"

definition checkForOverflow :: "node \<Rightarrow> world \<Rightarrow> world" where
  "checkForOverflow messageElement w =
     fold checkForOverflow_each (querySelectorAll ''text-message'' messageElement) w"

definition containerStyles :: "(string \<times> string) list" where
  "containerStyles =
     [(''maxHeight'', ''none''),
      (''height'', ''auto''),
      (''minHeight'', ''auto''),
      (''overflow'', ''visible''),
      (''overflowX'', ''visible''),
      (''overflowY'', ''visible''),
      (''display'', ''flex''),
      (''flexDirection'', ''column''),
      (''flexShrink'', ''0''),
      (''flexGrow'', ''0'')]"

definition contentStyles :: "(string \<times> string) list" where
  "contentStyles =
     [(''maxHeight'', ''none''),
      (''height'', ''auto''),
      (''minHeight'', ''auto''),
      (''overflow'', ''visible''),
      (''overflowX'', ''visible''),
      (''overflowY'', ''visible''),
      (''wordWrap'', ''break-word''),
      (''wordBreak'', ''break-word''),
      (''display'', ''block''),
      (''flexShrink'', ''0''),
      (''flexGrow'', ''0'')]"

definition textStyles :: "node \<Rightarrow> (string \<times> string) list" where
  "textStyles textMessage =
     [(''maxHeight'', ''none''),
      (''height'', ''auto''),
      (''minHeight'', ''auto''),
      (''overflow'', ''visible''),
      (''overflowX'', ''visible''),
      (''overflowY'', ''visible''),
      (''textOverflow'', ''clip''),
      (''webkitLineClamp'', ''none''),
      (''lineClamp'', ''none''),
      (''webkitBoxOrient'', ''unset''),
      (''display'', ''block''),
      (''flexShrink'', ''0''),
      (''flexGrow'', ''0''),
      (''whiteSpace'', if has_class ''markdown-rendered'' textMessage then ''normal'' else ''pre-wrap''),
      (''wordWrap'', ''break-word''),
      (''wordBreak'', ''break-word''),
      (''overflowWrap'', ''break-word''),
      (''hyphens'', ''auto'')]"

text \<open>The body of the loop over the text messages in \<^verbatim>\<open>applyFixes\<close>.\<close>

definition fixTextMessage :: "node \<Rightarrow> world \<Rightarrow> world" where
  "fixTextMessage textMessage w =
     (let w1 = fixElementStyles textMessage (textStyles textMessage) w;
          w2 = fold (\<lambda>link. fixElementStyles link
                      [(''wordWrap'', ''break-word''),
                       (''wordBreak'', ''break-all''),
                       (''whiteSpace'', ''normal''),
                       (''overflowWrap'', ''break-word''),
                       (''hyphens'', ''auto'')])
                 (querySelectorAll_tag ''A'' textMessage) w1;
          w3 = fold (\<lambda>pre. fixElementStyles pre
                      [(''maxHeight'', ''none''),
                       (''height'', ''auto''),
                       (''overflowX'', ''auto''),
                       (''overflowY'', ''visible''),
                       (''whiteSpace'', ''pre-wrap''),
                       (''wordWrap'', ''break-word'')])
                 (querySelectorAll_tag ''PRE'' textMessage) w2
      in fold (\<lambda>(parentElement, code) w.
                 if tagName parentElement \<noteq> ''PRE''
                 then fixElementStyles code
                        [(''whiteSpace'', ''pre-wrap''),
                         (''wordWrap'', ''break-word''),
                         (''wordBreak'', ''break-word'')] w
                 else w)
           (filter (\<lambda>(parentElement, code). has_tag ''CODE'' code)
              (descendants_with_parent textMessage)) w3)"

text \<open>
  The body of the \<^verbatim>\<open>try\<close> block of \<^verbatim>\<open>applyFixes\<close>; as in \<^verbatim>\<open>fixMobileMessage\<close>, every
  call that can raise is handled inside \<^verbatim>\<open>fixElementStyles\<close>.
\<close>

definition applyFixes_try :: "node \<Rightarrow> world \<Rightarrow> error \<times> world + world" where
  "applyFixes_try messageElement w =
     (let w1 = fixElementStyles messageElement containerStyles w;
          w2 = (case querySelector ''message-content'' messageElement of
                  Some messageContent \<Rightarrow> fixElementStyles messageContent contentStyles w1
                | None \<Rightarrow> w1);
          w3 = fold fixTextMessage (querySelectorAll ''text-message'' messageElement) w2
      in Inr (checkForOverflow messageElement w3))"

definition applyFixes :: "node \<Rightarrow> world \<Rightarrow> world" where
  "applyFixes messageElement w =
     (case applyFixes_try messageElement w of
        Inr w' \<Rightarrow> w'
      | Inl (e, w') \<Rightarrow> warn (Warn_long_message e) w')"

text \<open>
  \<^verbatim>\<open>message.dataset.messageId || message.id || 'unknown'\<close>: an absent attribute and the
  empty string are both falsy.
\<close>

definition messageId :: "node \<Rightarrow> string" where
  "messageId message =
     (case data_message_id message of
        Some d \<Rightarrow> if d \<noteq> [] then d
                  else if elem_id message \<noteq> [] then elem_id message else ''unknown''
      | None \<Rightarrow> if elem_id message \<noteq> [] then elem_id message else ''unknown'')"

text \<open>The body of the loop of \<^verbatim>\<open>fixMessageElement\<close>, for one message.\<close>

definition fixMessage :: "node \<Rightarrow> world \<Rightarrow> world" where
  "fixMessage message w =
     (if messageId message \<in> fixedElements w then w
      else
        let w1 = applyFixes message w
        in w1\<lparr>fixedElements := insert (messageId message) (fixedElements w1)\<rparr>)"

definition fixMessageElement :: "node \<Rightarrow> world \<Rightarrow> world" where
  "fixMessageElement el w =
     fold fixMessage
       (if has_class ''message'' el then [el] else querySelectorAll ''message'' el) w"

definition fixAllMessages :: "world \<Rightarrow> world" where
  "fixAllMessages w = fold fixMessageElement (querySelectorAll ''message'' (document w)) w"

definition manualFix :: "world \<Rightarrow> world" where
  "manualFix w = fixAllMessages ((warn Log_long_manual w)\<lparr>fixedElements := {}\<rparr>)"

definition startMonitoring :: "world \<Rightarrow> world" where
  "startMonitoring w =
     (let w1 = (fixAllMessages w)\<lparr>l_observer := True\<rparr>;
          w2 = (case querySelector ''message-list'' (document w1) of
                  Some messageList \<Rightarrow> observe Long_mutations messageList w1
                | None \<Rightarrow> w1)
      in setInterval Long_fixAllMessages 5000 w2)"

definition long_init :: "world \<Rightarrow> world" where
  "long_init w =
     (if readyState w = ''loading''
      then addEventListener ''document'' ''DOMContentLoaded'' Long_startMonitoring w
      else startMonitoring w)"

definition LongTextFix :: "world \<Rightarrow> world" where
  "LongTextFix w =
     long_init (w\<lparr>l_observer := False, fixedElements := {}, l_isMobile := detectMobile w\<rparr>)"

definition stop :: "world \<Rightarrow> world" where
  "stop w =
     (if l_observer w
      then w\<lparr>observed := filter (\<lambda>(f, target). f \<noteq> Long_mutations) (observed w),
              l_observer := False\<rparr>
      else w)"

section \<open>Running a callback\<close>

text \<open>
  What each closure does when the browser calls it. The mutation records are the argument
  of the two observer callbacks; the other closures take none.
\<close>

definition added_elements :: "mutation list \<Rightarrow> node list" where
  "added_elements mutations =
     concat (map (\<lambda>m. if mutation_type m = ''childList''
                       then filter is_element (addedNodes m) else []) mutations)"

fun run :: "callback \<Rightarrow> mutation list \<Rightarrow> world \<Rightarrow> world" where
  "run Mobile_startMobileFix mutations w = startMobileFix w"
| "run Mobile_orientationchange mutations w = setTimeout Mobile_orientation_settled 500 w"
| "run Mobile_orientation_settled mutations w =
     applyMobileFixes (w\<lparr>m_isSmallScreen := innerWidth w \<le> 480\<rparr>)"
| "run Mobile_resize mutations w =
     applyMobileFixes (w\<lparr>m_isSmallScreen := innerWidth w \<le> 480\<rparr>)"
| "run Mobile_applyMobileFixes mutations w = applyMobileFixes w"
| "run Mobile_mutations mutations w =
     (if \<exists>n \<in> set (added_elements mutations).
           has_class ''message'' n \<or> querySelector ''message'' n \<noteq> None
      then setTimeout Mobile_applyMobileFixes 100 w
      else w)"
| "run (Mobile_reset_height textMessage) mutations w =
     applyMobileStyles textMessage [(''height'', ''auto''), (''minHeight'', ''auto'')] w"
| "run Long_startMonitoring mutations w = startMonitoring w"
| "run Long_mutations mutations w = fold fixMessageElement (added_elements mutations) w"
| "run Long_fixAllMessages mutations w = fixAllMessages w"
| "run (Long_reset_height textMessage) mutations w =
     fixElementStyles textMessage [(''height'', ''auto''), (''minHeight'', ''auto'')] w"

section \<open>Notions used in the proofs\<close>

text \<open>
  A style assignment names the element, the CSS property and the value. \<open>puts\<close> performs a
  list of assignments on the style store the way \<^verbatim>\<open>setProperty\<close> does, leaving out those
  that raise.
\<close>

type_synonym assignment = "(addr \<times> string) \<times> string"

definition put :: "(addr \<Rightarrow> string \<Rightarrow> bool) \<Rightarrow> assignment \<Rightarrow> (addr \<Rightarrow> style) \<Rightarrow> (addr \<Rightarrow> style)" where
  "put R x s = (case x of ((a, p), v) \<Rightarrow>
      if R a p then s else s(a := (s a)(p \<mapsto> (v, ''important''))))"

definition puts :: "(addr \<Rightarrow> string \<Rightarrow> bool) \<Rightarrow> assignment list \<Rightarrow> (addr \<Rightarrow> style) \<Rightarrow> (addr \<Rightarrow> style)" where
  "puts R xs s = fold (put R) xs s"

definition entry_writes :: "node \<Rightarrow> (string \<times> string) list \<Rightarrow> assignment list" where
  "entry_writes el entries = map (\<lambda>(p, v). ((addr el, cssProperty p), v)) entries"

definition raised :: "world \<Rightarrow> node \<Rightarrow> (string \<times> string) list \<Rightarrow> string list" where
  "raised w el entries =
     map fst (filter (\<lambda>(p, v). style_raises w (addr el) (cssProperty p)) entries)"

text \<open>The declarations that \<^verbatim>\<open>setProperty\<close> does not store: it raises or does nothing.\<close>

definition skipped :: "world \<Rightarrow> addr \<Rightarrow> string \<Rightarrow> bool" where
  "skipped w = (\<lambda>a p. style_raises w a p \<or> unsupported p)"

text \<open>Two pages that differ at most in inline styles, console and pending timers.\<close>

definition restyled :: "world \<Rightarrow> world \<Rightarrow> bool" where
  "restyled w w' \<longleftrightarrow>
     userAgent w' = userAgent w \<and> ontouchstart w' = ontouchstart w
     \<and> maxTouchPoints w' = maxTouchPoints w \<and> innerWidth w' = innerWidth w
     \<and> readyState w' = readyState w \<and> document w' = document w
     \<and> layout w' = layout w \<and> style_raises w' = style_raises w
     \<and> intervals w' = intervals w \<and> listeners w' = listeners w
     \<and> observed w' = observed w \<and> m_isMobile w' = m_isMobile w
     \<and> m_isSmallScreen w' = m_isSmallScreen w \<and> l_observer w' = l_observer w
     \<and> fixedElements w' = fixedElements w \<and> l_isMobile w' = l_isMobile w"

text \<open>An element with everything below it, and nothing for a text node.\<close>

definition subtree :: "node \<Rightarrow> node list" where
  "subtree n = (case n of Text s \<Rightarrow> [] | Element a tg i d cl cs \<Rightarrow> n # descendants n)"

text \<open>
  Two pages whose inline styles agree on every element outside a set of addresses, and the
  elements that a fix of one message can style: the message, its content wrapper, its text
  messages and their links (for \<^verbatim>\<open>LongTextFix\<close> also their \<^verbatim>\<open>pre\<close> and
  \<^verbatim>\<open>code\<close> elements). Whatever is missing from the message is missing from the set.
\<close>

definition touches_only :: "addr set \<Rightarrow> world \<Rightarrow> world \<Rightarrow> bool" where
  "touches_only A w w' \<longleftrightarrow> (\<forall>a. a \<notin> A \<longrightarrow> styles w' a = styles w a)"

definition mobile_parts :: "node \<Rightarrow> addr set" where
  "mobile_parts m =
     {addr m} \<union> addr ` set_option (querySelector ''message-content'' m)
     \<union> (\<Union>tm \<in> set (querySelectorAll ''text-message'' m).
          {addr tm} \<union> addr ` set (querySelectorAll_tag ''A'' tm))"

definition long_parts :: "node \<Rightarrow> addr set" where
  "long_parts m =
     {addr m} \<union> addr ` set_option (querySelector ''message-content'' m)
     \<union> (\<Union>tm \<in> set (querySelectorAll ''text-message'' m).
          {addr tm} \<union> addr ` set (querySelectorAll_tag ''A'' tm)
          \<union> addr ` set (querySelectorAll_tag ''PRE'' tm)
          \<union> addr ` set (querySelectorAll_tag ''CODE'' tm))"

text \<open>
  A property of the page that a function keeps once it holds, and a style map all of whose
  entries for the CSS property \<open>p\<close> carry the value \<open>v\<close>.
\<close>

definition keeps :: "(world \<Rightarrow> bool) \<Rightarrow> (world \<Rightarrow> world) \<Rightarrow> bool" where
  "keeps P f \<longleftrightarrow> (\<forall>w. P w \<longrightarrow> P (f w))"

definition agrees :: "string \<Rightarrow> string \<Rightarrow> (string \<times> string) list \<Rightarrow> bool" where
  "agrees p v entries \<longleftrightarrow> (\<forall>(q, u) \<in> set entries. cssProperty q = p \<longrightarrow> u = v)"

text \<open>
  The assignments of \<^verbatim>\<open>MobileTextFix\<close> below the message itself never set
  \<^verbatim>\<open>max-width\<close> and set \<^verbatim>\<open>max-height\<close>, \<^verbatim>\<open>height\<close> and \<^verbatim>\<open>overflow\<close> to one
  value each. A property of the page is stable when every such assignment, a log entry and
  a new timer keep it.
\<close>

definition settled :: "string \<Rightarrow> string \<Rightarrow> bool" where
  "settled p v \<longleftrightarrow>
     p = ''max-width'' \<or> (p = ''max-height'' \<and> v = ''none'')
     \<or> (p = ''height'' \<and> v = ''auto'') \<or> (p = ''overflow'' \<and> v = ''visible'')"

definition settled_entries :: "(string \<times> string) list \<Rightarrow> bool" where
  "settled_entries entries \<longleftrightarrow> (\<forall>p v. settled p v \<longrightarrow> agrees p v entries)"

definition stable :: "(world \<Rightarrow> bool) \<Rightarrow> bool" where
  "stable P \<longleftrightarrow>
     (\<forall>el entries. (\<forall>w. settled_entries (entries w))
         \<longrightarrow> keeps P (\<lambda>w. applyMobileStyles el (entries w) w))
     \<and> (\<forall>e. keeps P (warn e)) \<and> (\<forall>f d. keeps P (setTimeout f d))"

text \<open>
  The same for \<^verbatim>\<open>LongTextFix\<close>: whichever role an element plays, its assignments set
  \<^verbatim>\<open>max-height\<close>, \<^verbatim>\<open>overflow-y\<close>, \<^verbatim>\<open>flex-direction\<close>, \<^verbatim>\<open>flex-shrink\<close> and
  \<^verbatim>\<open>flex-grow\<close> to one value each.
\<close>

definition settled_long :: "string \<Rightarrow> string \<Rightarrow> bool" where
  "settled_long p v \<longleftrightarrow>
     (p = ''max-height'' \<and> v = ''none'') \<or> (p = ''overflow-y'' \<and> v = ''visible'')
     \<or> (p = ''flex-direction'' \<and> v = ''column'')
     \<or> (p = ''flex-shrink'' \<and> v = ''0'') \<or> (p = ''flex-grow'' \<and> v = ''0'')"

definition settled_long_entries :: "(string \<times> string) list \<Rightarrow> bool" where
  "settled_long_entries entries \<longleftrightarrow> (\<forall>p v. settled_long p v \<longrightarrow> agrees p v entries)"

definition stable_long :: "(world \<Rightarrow> bool) \<Rightarrow> bool" where
  "stable_long P \<longleftrightarrow>
     (\<forall>el entries. (\<forall>w. settled_long_entries (entries w))
         \<longrightarrow> keeps P (\<lambda>w. fixElementStyles el (entries w) w))
     \<and> (\<forall>e. keeps P (warn e)) \<and> (\<forall>f d. keeps P (setTimeout f d))"


section \<open>Example pages\<close>

text \<open>
  A freshly loaded page on a desktop browser: no inline styles yet, nothing registered, a
  layout engine that reports the given scroll and client height for every element, and a
  \<^verbatim>\<open>setProperty\<close> that never raises.
\<close>

definition desktop_page :: "node \<Rightarrow> int \<times> int \<Rightarrow> world" where
  "desktop_page doc heights =
     \<lparr>userAgent = js ''Mozilla/5.0 (X11; Linux x86_64) Gecko/20100101 Firefox/128.0'',
      ontouchstart = False, maxTouchPoints = 0, innerWidth = 1280,
      readyState = ''complete'', document = doc,
      layout = (\<lambda>s a. heights), style_raises = (\<lambda>a p. False),
      styles = (\<lambda>a. Map.empty), console = [], timeouts = [], intervals = [],
      listeners = [], observed = [],
      m_isMobile = False, m_isSmallScreen = False,
      l_observer = False, fixedElements = {}, l_isMobile = False\<rparr>"

definition plain_text :: node where
  "plain_text = Element 3 ''DIV'' [] None [''text-message''] [Text (js ''hello world'')]"

definition plain_message :: node where
  "plain_message = Element 2 ''DIV'' [] (Some ''m1'') [''message''] [plain_text]"

definition plain_document :: node where
  "plain_document =
     Element 0 ''#document'' [] None []
       [Element 1 ''DIV'' [] None [''message-list'']
          [plain_message]]"

text \<open>The same page on a phone.\<close>

definition phone_page :: "node \<Rightarrow> int \<times> int \<Rightarrow> world" where
  "phone_page doc heights =
     \<lparr>userAgent = js ''Mozilla/5.0 (iPhone; CPU iPhone OS 17_5 like Mac OS X) Mobile/15E148'',
      ontouchstart = True, maxTouchPoints = 5, innerWidth = 390,
      readyState = ''complete'', document = doc,
      layout = (\<lambda>s a. heights), style_raises = (\<lambda>a p. False),
      styles = (\<lambda>a. Map.empty), console = [], timeouts = [], intervals = [],
      listeners = [], observed = [],
      m_isMobile = False, m_isSmallScreen = False,
      l_observer = False, fixedElements = {}, l_isMobile = False\<rparr>"

text \<open>A page with two messages that carry neither a message id nor an id.\<close>

definition first_anonymous :: node where
  "first_anonymous =
     Element 2 ''DIV'' [] None [''message'']
       [Element 3 ''DIV'' [] None [''text-message''] [Text (js ''one'')]]"

definition second_anonymous :: node where
  "second_anonymous =
     Element 4 ''DIV'' [] None [''message'']
       [Element 5 ''DIV'' [] None [''text-message''] [Text (js ''two'')]]"

definition anonymous_document :: node where
  "anonymous_document =
     Element 0 ''#document'' [] None []
       [Element 1 ''DIV'' [] None [''message-list''] [first_anonymous, second_anonymous]]"

text \<open>
  A desktop page on which setting \<^verbatim>\<open>max-height\<close> raises for the element at address 2.
\<close>

definition brittle_page :: "node \<Rightarrow> int \<times> int \<Rightarrow> world" where
  "brittle_page doc heights =
     (desktop_page doc heights)\<lparr>style_raises := (\<lambda>a p. a = 2 \<and> p = ''max-height'')\<rparr>"


text \<open>
  The phone page again, with \<^verbatim>\<open>MobileTextFix\<close> active on a small screen and the message
  \<^verbatim>\<open>m1\<close> already tracked by \<^verbatim>\<open>LongTextFix\<close>.
\<close>

definition revisited_page :: world where
  "revisited_page =
     (phone_page plain_document (100, 100))
       \<lparr>m_isMobile := True, m_isSmallScreen := True, fixedElements := {''m1''}\<rparr>"

text \<open>A message with the id \<^verbatim>\<open>m2\<close>, and a page with the messages \<^verbatim>\<open>m1\<close> and \<^verbatim>\<open>m2\<close>.\<close>

definition second_message :: node where
  "second_message =
     Element 4 ''DIV'' [] (Some ''m2'') [''message'']
       [Element 5 ''DIV'' [] None [''text-message''] [Text (js ''again'')]]"

definition two_messages_document :: node where
  "two_messages_document =
     Element 0 ''#document'' [] None []
       [Element 1 ''DIV'' [] None [''message-list''] [plain_message, second_message]]"

section \<open>Style assignments\<close>

declare cssProperty.simps [simp del]

lemma cssProperty_names [simp]:
  "cssProperty ''maxWidth'' = ''max-width''"
  "cssProperty ''maxHeight'' = ''max-height''"
  "cssProperty ''height'' = ''height''"
  "cssProperty ''minHeight'' = ''min-height''"
  "cssProperty ''overflow'' = ''overflow''"
  "cssProperty ''overflowX'' = ''overflow-x''"
  "cssProperty ''overflowY'' = ''overflow-y''"
  "cssProperty ''overflowWrap'' = ''overflow-wrap''"
  "cssProperty ''wordWrap'' = ''word-wrap''"
  "cssProperty ''wordBreak'' = ''word-break''"
  "cssProperty ''webkitHyphens'' = ''webkit-hyphens''"
  "cssProperty ''mozHyphens'' = ''moz-hyphens''"
  "cssProperty ''hyphens'' = ''hyphens''"
  "cssProperty ''whiteSpace'' = ''white-space''"
  "cssProperty ''fontSize'' = ''font-size''"
  "cssProperty ''lineHeight'' = ''line-height''"
  "cssProperty ''display'' = ''display''"
  "cssProperty ''flexDirection'' = ''flex-direction''"
  "cssProperty ''flexShrink'' = ''flex-shrink''"
  "cssProperty ''flexGrow'' = ''flex-grow''"
  "cssProperty ''textOverflow'' = ''text-overflow''"
  "cssProperty ''webkitLineClamp'' = ''webkit-line-clamp''"
  "cssProperty ''lineClamp'' = ''line-clamp''"
  "cssProperty ''webkitBoxOrient'' = ''webkit-box-orient''"
  by (simp_all add: cssProperty.simps is_upper_def to_lower_def char_of_eq_iff)

lemma unsupported_names [simp]:
  "\<not> unsupported ''max-width''"
  "\<not> unsupported ''max-height''"
  "\<not> unsupported ''height''"
  "\<not> unsupported ''min-height''"
  "\<not> unsupported ''overflow''"
  "\<not> unsupported ''overflow-x''"
  "\<not> unsupported ''overflow-y''"
  "\<not> unsupported ''overflow-wrap''"
  "\<not> unsupported ''word-wrap''"
  "\<not> unsupported ''word-break''"
  "unsupported ''webkit-hyphens''"
  "unsupported ''moz-hyphens''"
  "\<not> unsupported ''hyphens''"
  "\<not> unsupported ''white-space''"
  "\<not> unsupported ''font-size''"
  "\<not> unsupported ''line-height''"
  "\<not> unsupported ''display''"
  "\<not> unsupported ''flex-direction''"
  "\<not> unsupported ''flex-shrink''"
  "\<not> unsupported ''flex-grow''"
  "\<not> unsupported ''text-overflow''"
  "unsupported ''webkit-line-clamp''"
  "\<not> unsupported ''line-clamp''"
  "unsupported ''webkit-box-orient''"
  by (simp_all add: unsupported_def)

lemma skipped_iff [simp]: "skipped w a p \<longleftrightarrow> style_raises w a p \<or> unsupported p"
  by (simp add: skipped_def)

lemma puts_Nil [simp]: "puts R [] s = s"
  by (simp add: puts_def)

lemma puts_Cons [simp]: "puts R (x # xs) s = puts R xs (put R x s)"
  by (simp add: puts_def)

lemma puts_append [simp]: "puts R (xs @ ys) s = puts R ys (puts R xs s)"
  by (simp add: puts_def)

lemma applyMobileStyles_eq:
  "applyMobileStyles el entries w =
     w\<lparr>styles := puts (skipped w) (entry_writes el entries) (styles w),
       console := console w @ map (\<lambda>p. Warn_mobile_style p DOMException) (raised w el entries)\<rparr>"
proof (induction entries arbitrary: w)
  case Nil
  show ?case by (simp add: applyMobileStyles_def entry_writes_def raised_def)
next
  case (Cons e es)
  obtain p v where e: "e = (p, v)" by (cases e)
  have step: "applyMobileStyles el (e # es) w =
      applyMobileStyles el es
        (if style_raises w (addr el) (cssProperty p)
         then warn (Warn_mobile_style p DOMException) w
         else if unsupported (cssProperty p) then w
         else w\<lparr>styles := (styles w)(addr el := (styles w (addr el))(cssProperty p \<mapsto> (v, ''important'')))\<rparr>)"
    by (simp add: applyMobileStyles_def e setProperty_def)
  show ?case
    unfolding step Cons.IH
    by (simp add: e put_def warn_def entry_writes_def raised_def skipped_def)
qed

lemma fixElementStyles_eq:
  "fixElementStyles el entries w =
     w\<lparr>styles := puts (skipped w) (entry_writes el entries) (styles w),
       console := console w @ map (\<lambda>p. Warn_long_style p DOMException) (raised w el entries)\<rparr>"
proof (induction entries arbitrary: w)
  case Nil
  show ?case by (simp add: fixElementStyles_def entry_writes_def raised_def)
next
  case (Cons e es)
  obtain p v where e: "e = (p, v)" by (cases e)
  have step: "fixElementStyles el (e # es) w =
      fixElementStyles el es
        (if style_raises w (addr el) (cssProperty p)
         then warn (Warn_long_style p DOMException) w
         else if unsupported (cssProperty p) then w
         else w\<lparr>styles := (styles w)(addr el := (styles w (addr el))(cssProperty p \<mapsto> (v, ''important'')))\<rparr>)"
    by (simp add: fixElementStyles_def e setProperty_def)
  show ?case
    unfolding step Cons.IH
    by (simp add: e put_def warn_def entry_writes_def raised_def skipped_def)
qed

lemma entry_writes_Nil [simp]: "entry_writes el [] = []"
  by (simp add: entry_writes_def)

lemma entry_writes_Cons [simp]:
  "entry_writes el ((p, v) # entries) = ((addr el, cssProperty p), v) # entry_writes el entries"
  by (simp add: entry_writes_def)

lemma raised_Nil [simp]: "raised w el [] = []"
  by (simp add: raised_def)

lemma raised_Cons [simp]:
  "raised w el ((p, v) # entries) =
     (if style_raises w (addr el) (cssProperty p) then p # raised w el entries
      else raised w el entries)"
  by (simp add: raised_def)

lemma restyled_refl [simp]: "restyled w w"
  by (simp add: restyled_def)

lemma restyled_trans: "restyled w w' \<Longrightarrow> restyled w' w'' \<Longrightarrow> restyled w w''"
  by (simp add: restyled_def)

lemma restyled_applyMobileStyles [simp]: "restyled w (applyMobileStyles el entries w)"
  by (simp add: applyMobileStyles_eq restyled_def)

lemma restyled_fixElementStyles [simp]: "restyled w (fixElementStyles el entries w)"
  by (simp add: fixElementStyles_eq restyled_def)

lemma desktop_page_fields [simp]:
  "scrollHeight el (desktop_page doc (sh, ch)) = sh"
  "clientHeight el (desktop_page doc (sh, ch)) = ch"
  "style_raises (desktop_page doc heights) a p = False"
  "styles (desktop_page doc heights) a = Map.empty"
  "console (desktop_page doc heights) = []"
  "timeouts (desktop_page doc heights) = []"
  "document (desktop_page doc heights) = doc"
  "fixedElements (desktop_page doc heights) = {}"
  "m_isSmallScreen (desktop_page doc heights) = False"
  "innerWidth (desktop_page doc heights) = 1280"
  by (simp_all add: scrollHeight_def clientHeight_def desktop_page_def)

lemma addr_plain_text [simp]: "addr plain_text = 3"
  by (simp add: plain_text_def)

lemma show_int_103 [simp]: "show_int 103 = ''103''"
  by (simp add: show_int_def digit_char_def char_of_eq_iff)

section \<open>Overflow detection and the height pulse\<close>

lemma checkMobileOverflow_flagged:
  assumes "scrollHeight tm w > clientHeight tm w + 5"
  shows "checkMobileOverflow tm w =
     (applyMobileStyles tm
        [(''height'', ''auto''), (''minHeight'', show_int (scrollHeight tm w) @ ''px''),
         (''overflow'', ''visible'')]
        (warn (Warn_mobile_overflow (addr tm) (scrollHeight tm w) (clientHeight tm w)) w))
     \<lparr>timeouts := timeouts w @ [(Mobile_reset_height tm, 100)]\<rparr>"
  using assms
  by (simp add: checkMobileOverflow_def Let_def setTimeout_def scrollHeight_def warn_def
      applyMobileStyles_eq)

lemma checkForOverflow_each_flagged:
  assumes "scrollHeight tm w > clientHeight tm w"
  shows "checkForOverflow_each tm w =
     (fixElementStyles tm
        [(''height'', show_int (scrollHeight tm w) @ ''px''),
         (''minHeight'', show_int (scrollHeight tm w) @ ''px'')]
        (warn (Warn_long_overflow (addr tm) (scrollHeight tm w) (clientHeight tm w)
                 (take 100 (text_of tm) @ js ''...'')) w))
     \<lparr>timeouts := timeouts w @ [(Long_reset_height tm, 100)]\<rparr>"
  using assms
  by (simp add: checkForOverflow_each_def Let_def setTimeout_def scrollHeight_def warn_def
      fixElementStyles_eq)

text \<open>
  C1, as amended. A detector flags overflow by logging the warning and scheduling the reset
  of the height pulse. \<^verbatim>\<open>MobileTextFix.checkMobileOverflow\<close> flags a text message exactly
  when its scroll height exceeds its client height by more than 5 px, and leaves the page as
  it is otherwise. \<^verbatim>\<open>LongTextFix.checkForOverflow\<close> has no tolerance: it flags a text message
  exactly when its scroll height exceeds its client height at all.
\<close>

theorem overflow_detection:
  "(clientHeight tm w + 5 < scrollHeight tm w \<longrightarrow>
      timeouts (checkMobileOverflow tm w) = timeouts w @ [(Mobile_reset_height tm, 100)]
      \<and> Warn_mobile_overflow (addr tm) (scrollHeight tm w) (clientHeight tm w)
          \<in> set (console (checkMobileOverflow tm w)))
   \<and> (scrollHeight tm w \<le> clientHeight tm w + 5 \<longrightarrow> checkMobileOverflow tm w = w)
   \<and> (clientHeight tm w < scrollHeight tm w \<longrightarrow>
      timeouts (checkForOverflow_each tm w) = timeouts w @ [(Long_reset_height tm, 100)]
      \<and> Warn_long_overflow (addr tm) (scrollHeight tm w) (clientHeight tm w)
            (take 100 (text_of tm) @ js ''...'')
          \<in> set (console (checkForOverflow_each tm w)))
   \<and> (scrollHeight tm w \<le> clientHeight tm w \<longrightarrow> checkForOverflow_each tm w = w)"
proof (intro conjI impI)
  assume "clientHeight tm w + 5 < scrollHeight tm w"
  then show "timeouts (checkMobileOverflow tm w) = timeouts w @ [(Mobile_reset_height tm, 100)]"
    and "Warn_mobile_overflow (addr tm) (scrollHeight tm w) (clientHeight tm w)
          \<in> set (console (checkMobileOverflow tm w))"
    by (simp_all add: checkMobileOverflow_flagged applyMobileStyles_eq warn_def)
next
  assume "scrollHeight tm w \<le> clientHeight tm w + 5"
  then show "checkMobileOverflow tm w = w"
    by (simp add: checkMobileOverflow_def)
next
  assume "clientHeight tm w < scrollHeight tm w"
  then show "timeouts (checkForOverflow_each tm w) = timeouts w @ [(Long_reset_height tm, 100)]"
    and "Warn_long_overflow (addr tm) (scrollHeight tm w) (clientHeight tm w)
            (take 100 (text_of tm) @ js ''...'')
          \<in> set (console (checkForOverflow_each tm w))"
    by (simp_all add: checkForOverflow_each_flagged fixElementStyles_eq warn_def)
next
  assume "scrollHeight tm w \<le> clientHeight tm w"
  then show "checkForOverflow_each tm w = w"
    by (simp add: checkForOverflow_each_def)
qed

theorem overflow_detection_witness:
  "timeouts (checkMobileOverflow plain_text (desktop_page plain_document (106, 100)))
     = [(Mobile_reset_height plain_text, 100)]
   \<and> checkMobileOverflow plain_text (desktop_page plain_document (105, 100))
     = desktop_page plain_document (105, 100)
   \<and> timeouts (checkForOverflow_each plain_text (desktop_page plain_document (101, 100)))
     = [(Long_reset_height plain_text, 100)]
   \<and> checkForOverflow_each plain_text (desktop_page plain_document (100, 100))
     = desktop_page plain_document (100, 100)"
  using overflow_detection [of plain_text "desktop_page plain_document (106, 100)"]
    overflow_detection [of plain_text "desktop_page plain_document (105, 100)"]
    overflow_detection [of plain_text "desktop_page plain_document (101, 100)"]
    overflow_detection [of plain_text "desktop_page plain_document (100, 100)"]
  by simp

text \<open>
  C1 as stated fails on \<^verbatim>\<open>LongTextFix.checkForOverflow\<close>: a text message whose scroll
  height of 103 px is within 5 px of its client height of 100 px is flagged and pulsed.
\<close>

theorem tolerance_counterexample:
  "scrollHeight plain_text (desktop_page plain_document (103, 100))
     \<le> clientHeight plain_text (desktop_page plain_document (103, 100)) + 5
   \<and> timeouts (checkForOverflow_each plain_text (desktop_page plain_document (103, 100)))
     = [(Long_reset_height plain_text, 100)]
   \<and> styles (checkForOverflow_each plain_text (desktop_page plain_document (103, 100)))
       3 ''min-height''
     = Some (''103px'', ''important'')"
  by (simp add: checkForOverflow_each_flagged fixElementStyles_eq put_def warn_def)

section \<open>What the fixes leave alone\<close>

lemma restyled_fold:
  assumes "\<And>x w. restyled w (f x w)"
  shows "restyled w (fold f xs w)"
proof (induction xs arbitrary: w)
  case Nil
  show ?case by simp
next
  case (Cons x xs)
  have "restyled w (f x w)" by (rule assms)
  moreover have "restyled (f x w) (fold f xs (f x w))" by (rule Cons.IH)
  ultimately show ?case by (auto intro: restyled_trans)
qed

lemma restyled_warn [simp]: "restyled w (warn entry w)"
  by (simp add: restyled_def warn_def)

lemma restyled_setTimeout [simp]: "restyled w (setTimeout f d w)"
  by (simp add: restyled_def setTimeout_def)

lemma restyled_checkMobileOverflow [simp]: "restyled w (checkMobileOverflow tm w)"
  by (simp add: checkMobileOverflow_def Let_def restyled_def setTimeout_def warn_def
      applyMobileStyles_eq)

lemma restyled_checkForOverflow_each [simp]: "restyled w (checkForOverflow_each tm w)"
  by (simp add: checkForOverflow_each_def Let_def restyled_def setTimeout_def warn_def
      fixElementStyles_eq)

lemma restyled_checkForOverflow [simp]: "restyled w (checkForOverflow m w)"
  unfolding checkForOverflow_def by (rule restyled_fold) simp

lemma restyled_breakLongWords [simp]: "restyled w (breakLongWords tm w)"
  unfolding breakLongWords_def
  by (rule restyled_fold) (auto split: option.splits)

lemma restyled_fixMobileTextMessage [simp]: "restyled w (fixMobileTextMessage tm w)"
proof -
  let ?w1 = "applyMobileStyles tm (mobileStyles tm w) w"
  let ?w2 = "fold (\<lambda>link w. applyMobileStyles link (linkStyles w) w) (querySelectorAll_tag ''A'' tm) ?w1"
  let ?w3 = "breakLongWords tm ?w2"
  have "restyled w ?w1" by simp
  moreover have "restyled ?w1 ?w2" by (rule restyled_fold) simp
  moreover have "restyled ?w2 ?w3" by simp
  moreover have "restyled ?w3 (checkMobileOverflow tm ?w3)" by simp
  ultimately show ?thesis
    unfolding fixMobileTextMessage_def Let_def by (blast intro: restyled_trans)
qed

lemma fixMobileMessage_eq:
  "fixMobileMessage m w =
     fold fixMobileTextMessage (querySelectorAll ''text-message'' m)
       (case querySelector ''message-content'' m of
          Some c \<Rightarrow> applyMobileStyles c
            mobileContentStyles
            (applyMobileStyles m
               (mobileMessageStyles w) w)
        | None \<Rightarrow> applyMobileStyles m
               (mobileMessageStyles w) w)"
  by (simp add: fixMobileMessage_def fixMobileMessage_try_def Let_def split: option.splits)

lemma restyled_fixMobileMessage [simp]: "restyled w (fixMobileMessage m w)"
proof -
  let ?w1 = "applyMobileStyles m
               (mobileMessageStyles w) w"
  let ?w2 = "case querySelector ''message-content'' m of
          Some c \<Rightarrow> applyMobileStyles c
            mobileContentStyles ?w1
        | None \<Rightarrow> ?w1"
  have "restyled w ?w1" by simp
  moreover have "restyled ?w1 ?w2" by (simp split: option.splits)
  moreover have "restyled ?w2 (fold fixMobileTextMessage (querySelectorAll ''text-message'' m) ?w2)"
    by (rule restyled_fold) simp
  ultimately have "restyled w (fold fixMobileTextMessage (querySelectorAll ''text-message'' m) ?w2)"
    by (blast intro: restyled_trans)
  then show ?thesis
    by (simp add: fixMobileMessage_eq split: option.splits)
qed

lemma restyled_applyMobileFixes [simp]: "restyled w (applyMobileFixes w)"
  unfolding applyMobileFixes_def by (rule restyled_fold) simp

lemma restyled_fixTextMessage [simp]: "restyled w (fixTextMessage tm w)"
proof -
  let ?w1 = "fixElementStyles tm (textStyles tm) w"
  let ?f2 = "\<lambda>link. fixElementStyles link
                      [(''wordWrap'', ''break-word''),
                       (''wordBreak'', ''break-all''),
                       (''whiteSpace'', ''normal''),
                       (''overflowWrap'', ''break-word''),
                       (''hyphens'', ''auto'')]"
  let ?w2 = "fold ?f2 (querySelectorAll_tag ''A'' tm) ?w1"
  let ?f3 = "\<lambda>pre. fixElementStyles pre
                      [(''maxHeight'', ''none''),
                       (''height'', ''auto''),
                       (''overflowX'', ''auto''),
                       (''overflowY'', ''visible''),
                       (''whiteSpace'', ''pre-wrap''),
                       (''wordWrap'', ''break-word'')]"
  let ?w3 = "fold ?f3 (querySelectorAll_tag ''PRE'' tm) ?w2"
  let ?f4 = "\<lambda>(parentElement, code) w.
                 if tagName parentElement \<noteq> ''PRE''
                 then fixElementStyles code
                        [(''whiteSpace'', ''pre-wrap''),
                         (''wordWrap'', ''break-word''),
                         (''wordBreak'', ''break-word'')] w
                 else w"
  let ?w4 = "fold ?f4 (filter (\<lambda>(parentElement, code). has_tag ''CODE'' code)
              (descendants_with_parent tm)) ?w3"
  have "restyled w ?w1" by simp
  moreover have "restyled ?w1 ?w2" by (rule restyled_fold) simp
  moreover have "restyled ?w2 ?w3" by (rule restyled_fold) simp
  moreover have "restyled ?w3 ?w4" by (rule restyled_fold) auto
  ultimately have "restyled w ?w4" by (blast intro: restyled_trans)
  then show ?thesis by (simp add: fixTextMessage_def Let_def)
qed

lemma applyFixes_eq:
  "applyFixes m w =
     checkForOverflow m
       (fold fixTextMessage (querySelectorAll ''text-message'' m)
          (case querySelector ''message-content'' m of
             Some c \<Rightarrow> fixElementStyles c contentStyles (fixElementStyles m containerStyles w)
           | None \<Rightarrow> fixElementStyles m containerStyles w))"
  by (simp add: applyFixes_def applyFixes_try_def Let_def split: option.splits)

lemma restyled_applyFixes [simp]: "restyled w (applyFixes m w)"
proof -
  let ?w1 = "fixElementStyles m containerStyles w"
  let ?w2 = "case querySelector ''message-content'' m of
             Some c \<Rightarrow> fixElementStyles c contentStyles ?w1
           | None \<Rightarrow> ?w1"
  let ?w3 = "fold fixTextMessage (querySelectorAll ''text-message'' m) ?w2"
  have "restyled w ?w1" by simp
  moreover have "restyled ?w1 ?w2" by (simp split: option.splits)
  moreover have "restyled ?w2 ?w3" by (rule restyled_fold) simp
  moreover have "restyled ?w3 (checkForOverflow m ?w3)" by simp
  ultimately have "restyled w (checkForOverflow m ?w3)" by (blast intro: restyled_trans)
  then show ?thesis by (simp add: applyFixes_eq split: option.splits)
qed



section \<open>Construction on a device that is not mobile\<close>

text \<open>
  C10. When the user agent matches none of the mobile patterns and the device is not a touch
  device with a viewport of at most 768 px, constructing \<^verbatim>\<open>MobileTextFix\<close> only sets
  its two fields and logs that the fixes are skipped: no listener, no observer, no interval
  and no timer is registered and no inline style changes.
\<close>

theorem non_mobile_construction_changes_nothing:
  assumes "\<not> isMobileUA (userAgent w)"
    and "\<not> ((ontouchstart w \<or> maxTouchPoints w > 0) \<and> innerWidth w \<le> 768)"
  shows "MobileTextFix w =
           w\<lparr>console := console w @ [Log_mobile_skipped],
             m_isMobile := False, m_isSmallScreen := innerWidth w \<le> 480\<rparr>
         \<and> listeners (MobileTextFix w) = listeners w
         \<and> observed (MobileTextFix w) = observed w
         \<and> intervals (MobileTextFix w) = intervals w
         \<and> timeouts (MobileTextFix w) = timeouts w
         \<and> styles (MobileTextFix w) = styles w"
  using assms
  by (simp add: MobileTextFix_def mobile_init_def detectMobile_def warn_def)

lemma isMobileUA_desktop: "\<not> isMobileUA (userAgent (desktop_page doc heights))"
  by (simp add: desktop_page_def isMobileUA_def js_def starts_with_ci_def fold_case_def)

theorem non_mobile_construction_changes_nothing_witness:
  "listeners (MobileTextFix (desktop_page plain_document (300, 100))) = []
   \<and> observed (MobileTextFix (desktop_page plain_document (300, 100))) = []
   \<and> intervals (MobileTextFix (desktop_page plain_document (300, 100))) = []
   \<and> timeouts (MobileTextFix (desktop_page plain_document (300, 100))) = []
   \<and> styles (MobileTextFix (desktop_page plain_document (300, 100))) 3 ''min-height'' = None"
  using non_mobile_construction_changes_nothing
          [of "desktop_page plain_document (300, 100)", OF isMobileUA_desktop]
  by (simp add: desktop_page_def)

lemma isMobileUA_phone: "isMobileUA (userAgent (phone_page doc heights))"
  by (simp add: phone_page_def isMobileUA_def js_def starts_with_ci_def fold_case_def)



section \<open>The set of fixed elements\<close>

lemma restyledD:
  assumes "restyled w w'"
  shows "fixedElements w' = fixedElements w" "document w' = document w"
    "style_raises w' = style_raises w" "layout w' = layout w"
    "m_isSmallScreen w' = m_isSmallScreen w" "innerWidth w' = innerWidth w"
    "listeners w' = listeners w" "intervals w' = intervals w" "observed w' = observed w"
  using assms by (simp_all add: restyled_def)

lemma fixedElements_applyFixes [simp]: "fixedElements (applyFixes m w) = fixedElements w"
  by (rule restyledD(1)) simp

lemma document_applyFixes [simp]: "document (applyFixes m w) = document w"
  by (rule restyledD(2)) simp

lemma fixedElements_fixMessage:
  "fixedElements (fixMessage m w) = insert (messageId m) (fixedElements w)"
  by (auto simp: fixMessage_def Let_def)

lemma document_fixMessage [simp]: "document (fixMessage m w) = document w"
  by (simp add: fixMessage_def Let_def)

lemma fixMessage_tracked: "messageId m \<in> fixedElements w \<Longrightarrow> fixMessage m w = w"
  by (simp add: fixMessage_def)

lemma fixMessageElement_message:
  "has_class ''message'' m \<Longrightarrow> fixMessageElement m w = fixMessage m w"
  by (simp add: fixMessageElement_def)

lemma fixedElements_fold_fixMessage:
  "fixedElements (fold fixMessage ms w) = messageId ` set ms \<union> fixedElements w"
  by (induction ms arbitrary: w) (auto simp: fixedElements_fixMessage)

lemma document_fold_fixMessage [simp]: "document (fold fixMessage ms w) = document w"
  by (induction ms arbitrary: w) auto

lemma fixedElements_fixMessageElement:
  "fixedElements (fixMessageElement el w) =
     messageId ` set (if has_class ''message'' el then [el] else querySelectorAll ''message'' el)
       \<union> fixedElements w"
  unfolding fixMessageElement_def by (rule fixedElements_fold_fixMessage)

lemma document_fixMessageElement [simp]: "document (fixMessageElement el w) = document w"
  by (simp add: fixMessageElement_def)

lemma fixedElements_fold_fixMessageElement_mono:
  "fixedElements w \<subseteq> fixedElements (fold fixMessageElement els w)"
proof (induction els arbitrary: w)
  case Nil
  show ?case by simp
next
  case (Cons el els)
  have "fixedElements w \<subseteq> fixedElements (fixMessageElement el w)"
    by (simp add: fixedElements_fixMessageElement)
  also have "\<dots> \<subseteq> fixedElements (fold fixMessageElement els (fixMessageElement el w))"
    by (rule Cons.IH)
  finally show ?case by simp
qed

lemma fixedElements_fold_fixMessageElement_messages:
  assumes "\<forall>m \<in> set ms. has_class ''message'' m"
  shows "fixedElements (fold fixMessageElement ms w) = messageId ` set ms \<union> fixedElements w"
  using assms
  by (induction ms arbitrary: w) (auto simp: fixedElements_fixMessageElement)

lemma document_fold_fixMessageElement [simp]:
  "document (fold fixMessageElement els w) = document w"
  by (induction els arbitrary: w) auto

lemma querySelectorAll_has_class: "m \<in> set (querySelectorAll c n) \<Longrightarrow> has_class c m"
  by (simp add: querySelectorAll_def)

lemma fixedElements_fixAllMessages:
  "fixedElements (fixAllMessages w) =
     messageId ` set (querySelectorAll ''message'' (document w)) \<union> fixedElements w"
  unfolding fixAllMessages_def
  by (rule fixedElements_fold_fixMessageElement_messages)
     (simp add: querySelectorAll_has_class)

lemma document_fixAllMessages [simp]: "document (fixAllMessages w) = document w"
  by (simp add: fixAllMessages_def)

lemma fold_fixMessageElement_tracked:
  assumes "\<forall>el \<in> set els. \<forall>m \<in> set (if has_class ''message'' el then [el] else querySelectorAll ''message'' el).
             messageId m \<in> fixedElements w"
  shows "fold fixMessageElement els w = w"
  using assms
proof (induction els)
  case Nil
  show ?case by simp
next
  case (Cons el els)
  have "fold fixMessage ms w = w" if "\<forall>m \<in> set ms. messageId m \<in> fixedElements w" for ms
    using that by (induction ms) (simp_all add: fixMessage_tracked)
  with Cons.prems have "fixMessageElement el w = w"
    by (simp add: fixMessageElement_def)
  with Cons show ?case by simp
qed

lemma fixAllMessages_tracked:
  assumes "\<forall>m \<in> set (querySelectorAll ''message'' (document w)). messageId m \<in> fixedElements w"
  shows "fixAllMessages w = w"
  unfolding fixAllMessages_def
  by (rule fold_fixMessageElement_tracked) (use assms in \<open>auto simp: querySelectorAll_has_class\<close>)

lemma fixAllMessages_twice: "fixAllMessages (fixAllMessages w) = fixAllMessages w"
  by (rule fixAllMessages_tracked) (simp add: fixedElements_fixAllMessages)

text \<open>
  C9. A message without \<^verbatim>\<open>data-message-id\<close> and without \<^verbatim>\<open>id\<close> is tracked as
  \<^verbatim>\<open>'unknown'\<close>. Once one such message has been fixed, any other such message is skipped:
  right after it, and in every page in which \<^verbatim>\<open>'unknown'\<close> is tracked, where scans and
  mutation notifications keep it tracked. Only the clearing of the set by \<^verbatim>\<open>manualFix\<close>
  removes it.
\<close>

theorem unidentified_messages_share_unknown:
  assumes "data_message_id m = None" and "elem_id m = []"
    and "data_message_id m' = None" and "elem_id m' = []"
  shows "messageId m = ''unknown''
     \<and> ''unknown'' \<in> fixedElements (fixMessage m w)
     \<and> fixMessage m' (fixMessage m w) = fixMessage m w
     \<and> (''unknown'' \<in> fixedElements w' \<longrightarrow>
          fixMessage m' w' = w'
          \<and> (has_class ''message'' m' \<longrightarrow> fixMessageElement m' w' = w')
          \<and> ''unknown'' \<in> fixedElements (fixAllMessages w')
          \<and> ''unknown'' \<in> fixedElements (run Long_mutations mutations w'))
     \<and> ''unknown'' \<notin> fixedElements ((warn Log_long_manual w')\<lparr>fixedElements := {}\<rparr>)"
proof -
  have id: "messageId m = ''unknown''" "messageId m' = ''unknown''"
    using assms by (simp_all add: messageId_def)
  have tracked: "''unknown'' \<in> fixedElements (fixMessage m w)"
    by (simp add: fixedElements_fixMessage id)
  have skip: "fixMessage m' v = v" if "''unknown'' \<in> fixedElements v" for v
    using that by (simp add: fixMessage_tracked id)
  have keep: "''unknown'' \<in> fixedElements (fold fixMessageElement els v)"
    if "''unknown'' \<in> fixedElements v" for els v
    using that fixedElements_fold_fixMessageElement_mono [of v els] by blast
  show ?thesis
    using id tracked skip keep
    by (simp add: fixMessageElement_message fixAllMessages_def)
qed



theorem unidentified_messages_share_unknown_witness:
  "messageId first_anonymous = ''unknown''
   \<and> fixMessage second_anonymous
        (fixMessage first_anonymous (desktop_page anonymous_document (100, 100)))
      = fixMessage first_anonymous (desktop_page anonymous_document (100, 100))
   \<and> fixMessageElement second_anonymous
        (fixMessage first_anonymous (desktop_page anonymous_document (100, 100)))
      = fixMessage first_anonymous (desktop_page anonymous_document (100, 100))"
  using unidentified_messages_share_unknown
    [of first_anonymous second_anonymous "desktop_page anonymous_document (100, 100)"
        "fixMessage first_anonymous (desktop_page anonymous_document (100, 100))"]
  by (simp add: first_anonymous_def second_anonymous_def has_class_def)

text \<open>
  C2. When overflow is detected and \<^verbatim>\<open>min-height\<close> can be set, the minimum height of the
  text message becomes the measured scroll height in px and a reset is scheduled after
  100 ms; when the reset runs, the minimum height becomes \<^verbatim>\<open>auto\<close>. Both scripts do so.
\<close>

theorem height_pulse:
  assumes "\<not> style_raises w (addr tm) ''min-height''"
    and "\<not> style_raises w' (addr tm) ''min-height''"
  shows "(clientHeight tm w + 5 < scrollHeight tm w \<longrightarrow>
            styles (checkMobileOverflow tm w) (addr tm) ''min-height''
              = Some (show_int (scrollHeight tm w) @ ''px'', ''important'')
            \<and> timeouts (checkMobileOverflow tm w) = timeouts w @ [(Mobile_reset_height tm, 100)])
       \<and> styles (run (Mobile_reset_height tm) mutations w') (addr tm) ''min-height''
              = Some (''auto'', ''important'')
       \<and> (clientHeight tm w < scrollHeight tm w \<longrightarrow>
            styles (checkForOverflow_each tm w) (addr tm) ''min-height''
              = Some (show_int (scrollHeight tm w) @ ''px'', ''important'')
            \<and> timeouts (checkForOverflow_each tm w) = timeouts w @ [(Long_reset_height tm, 100)])
       \<and> styles (run (Long_reset_height tm) mutations w') (addr tm) ''min-height''
              = Some (''auto'', ''important'')"
  using assms
  by (simp add: checkMobileOverflow_flagged checkForOverflow_each_flagged applyMobileStyles_eq
      fixElementStyles_eq put_def warn_def)

theorem height_pulse_witness:
  "styles (checkMobileOverflow plain_text (desktop_page plain_document (106, 100))) 3 ''min-height''
     = Some (''106px'', ''important'')
   \<and> styles (run (Mobile_reset_height plain_text) []
        (checkMobileOverflow plain_text (desktop_page plain_document (106, 100)))) 3 ''min-height''
     = Some (''auto'', ''important'')
   \<and> styles (checkForOverflow_each plain_text (desktop_page plain_document (106, 100))) 3 ''min-height''
     = Some (''106px'', ''important'')
   \<and> styles (run (Long_reset_height plain_text) []
        (checkForOverflow_each plain_text (desktop_page plain_document (106, 100)))) 3 ''min-height''
     = Some (''auto'', ''important'')"
proof -
  have s: "show_int 106 = ''106''"
    by (simp add: show_int_def digit_char_def char_of_eq_iff)
  have r1: "\<not> style_raises (checkMobileOverflow plain_text (desktop_page plain_document (106, 100)))
             (addr plain_text) ''min-height''"
    by (simp add: restyledD(3) [OF restyled_checkMobileOverflow])
  have r2: "\<not> style_raises (checkForOverflow_each plain_text (desktop_page plain_document (106, 100)))
             (addr plain_text) ''min-height''"
    by (simp add: restyledD(3) [OF restyled_checkForOverflow_each])
  show ?thesis
    using height_pulse [of "desktop_page plain_document (106, 100)" plain_text
        "checkMobileOverflow plain_text (desktop_page plain_document (106, 100))" "[]"]
      height_pulse [of "desktop_page plain_document (106, 100)" plain_text
        "checkForOverflow_each plain_text (desktop_page plain_document (106, 100))" "[]"]
      r1 r2
    by (simp add: s)
qed

section \<open>The document tree\<close>

lemma snd_elements_under: "map snd (elements_under p n) = subtree n"
  by (cases n) (simp_all add: subtree_def descendants_def descendants_with_parent_def)

lemma descendants_eq: "descendants n = concat (map subtree (children n))"
  by (simp add: descendants_def descendants_with_parent_def map_concat snd_elements_under
      comp_def)

lemma subtree_Text [simp]: "subtree (Text s) = []"
  by (simp add: subtree_def)

lemma subtree_Element [simp]:
  "subtree (Element a tg i d cl cs) = Element a tg i d cl cs # concat (map subtree cs)"
  by (simp add: subtree_def descendants_eq)

lemma descendants_Element [simp]:
  "descendants (Element a tg i d cl cs) = concat (map subtree cs)"
  by (simp add: descendants_eq)

lemma descendants_Text [simp]: "descendants (Text s) = []"
  by (simp add: descendants_eq)

lemma subtree_subset: "set (subtree n) \<subseteq> insert n (set (descendants n))"
  by (cases n) auto

lemma in_subtree_descendants:
  "x \<in> set (subtree n) \<Longrightarrow> set (descendants x) \<subseteq> set (subtree n)"
proof (induction n)
  case (Element a tg i d cl cs)
  from Element.prems consider "x = Element a tg i d cl cs"
    | c where "c \<in> set cs" "x \<in> set (subtree c)"
    by auto
  then show ?case
  proof cases
    case 1
    then show ?thesis by auto
  next
    case 2
    with Element.IH have "set (descendants x) \<subseteq> set (subtree c)" by blast
    with 2 show ?thesis by auto
  qed
next
  case (Text s)
  then show ?case by simp
qed

lemma descendants_trans:
  assumes "x \<in> set (descendants y)" and "y \<in> set (descendants z)"
  shows "x \<in> set (descendants z)"
proof -
  from assms(2) obtain c where c: "c \<in> set (children z)" "y \<in> set (subtree c)"
    by (auto simp: descendants_eq)
  with assms(1) have "x \<in> set (subtree c)"
    using in_subtree_descendants by blast
  with c show ?thesis by (auto simp: descendants_eq)
qed

lemma querySelectorAll_descendant: "x \<in> set (querySelectorAll c n) \<Longrightarrow> x \<in> set (descendants n)"
  by (simp add: querySelectorAll_def)

lemma querySelectorAll_tag_descendant:
  "x \<in> set (querySelectorAll_tag t n) \<Longrightarrow> x \<in> set (descendants n)"
  by (simp add: querySelectorAll_tag_def)

lemma querySelector_first:
  "querySelector c n = Some x \<Longrightarrow> x \<in> set (querySelectorAll c n)"
  by (auto simp: querySelector_def split: list.splits)

lemma descendants_with_parent_snd:
  "(p, x) \<in> set (descendants_with_parent n) \<Longrightarrow> x \<in> set (descendants n)"
  by (force simp: descendants_def)

lemma codes_are_tagged:
  "map snd (filter (\<lambda>(p, x). has_tag t x) (descendants_with_parent n)) = querySelectorAll_tag t n"
  by (simp add: querySelectorAll_tag_def descendants_def filter_map comp_def case_prod_unfold)

lemma text_nodes_under_owner:
  "(Some e, t) \<in> set (text_nodes_under owner n) \<Longrightarrow>
     Some e = owner \<or> (has_class ''text-message'' e \<and> e \<in> set (subtree n))"
proof (induction n arbitrary: owner)
  case (Element a tg i d cl cs)
  let ?self = "Element a tg i d cl cs"
  let ?o = "if ''text-message'' \<in> set cl then Some ?self else owner"
  from Element.prems obtain c where c: "c \<in> set cs" "(Some e, t) \<in> set (text_nodes_under ?o c)"
    by auto
  with Element.IH have "Some e = ?o \<or> (has_class ''text-message'' e \<and> e \<in> set (subtree c))"
    by blast
  then show ?case
  proof
    assume "Some e = ?o"
    then show ?thesis by (auto simp: has_class_def split: if_splits)
  next
    assume "has_class ''text-message'' e \<and> e \<in> set (subtree c)"
    with c show ?thesis by auto
  qed
next
  case (Text s)
  then show ?case by simp
qed

lemma breakLongWords_owner:
  assumes "(Some e, t) \<in> set (concat (map (text_nodes_under
             (if has_class ''text-message'' tm then Some tm else None)) (children tm)))"
  shows "has_class ''text-message'' e \<and> (e = tm \<or> e \<in> set (descendants tm))"
proof -
  from assms obtain c where c: "c \<in> set (children tm)"
    "(Some e, t) \<in> set (text_nodes_under (if has_class ''text-message'' tm then Some tm else None) c)"
    by auto
  from text_nodes_under_owner [OF c(2)] c(1) show ?thesis
    by (auto simp: descendants_eq split: if_splits)
qed



section \<open>The elements a fix can style\<close>

lemma touches_only_refl [simp]: "touches_only A w w"
  by (simp add: touches_only_def)

lemma touches_only_trans:
  "touches_only A w w' \<Longrightarrow> touches_only B w' w'' \<Longrightarrow> A \<subseteq> C \<Longrightarrow> B \<subseteq> C \<Longrightarrow> touches_only C w w''"
  unfolding touches_only_def by (metis subsetD)

lemma touches_only_mono: "touches_only A w w' \<Longrightarrow> A \<subseteq> B \<Longrightarrow> touches_only B w w'"
  by (auto simp: touches_only_def)

lemma touches_only_fold:
  assumes "\<And>x w. x \<in> set xs \<Longrightarrow> touches_only A w (f x w)"
  shows "touches_only A w (fold f xs w)"
  using assms
proof (induction xs arbitrary: w)
  case Nil
  show ?case by simp
next
  case (Cons x xs)
  have "touches_only A w (f x w)" by (simp add: Cons.prems)
  moreover have "touches_only A (f x w) (fold f xs (f x w))"
    by (rule Cons.IH) (simp add: Cons.prems)
  ultimately show ?case by (auto simp: touches_only_def)
qed

lemma puts_other: "a \<notin> fst ` fst ` set xs \<Longrightarrow> puts R xs s a = s a"
  by (induction xs arbitrary: s) (auto simp: put_def)

lemma entry_writes_addr: "fst ` fst ` set (entry_writes el entries) \<subseteq> {addr el}"
  by (auto simp: entry_writes_def)

lemma touches_only_applyMobileStyles: "touches_only {addr el} w (applyMobileStyles el entries w)"
  using entry_writes_addr [of el entries]
  by (auto simp: touches_only_def applyMobileStyles_eq intro!: puts_other)

lemma touches_only_fixElementStyles: "touches_only {addr el} w (fixElementStyles el entries w)"
  using entry_writes_addr [of el entries]
  by (auto simp: touches_only_def fixElementStyles_eq intro!: puts_other)

lemma touches_only_checkMobileOverflow: "touches_only {addr tm} w (checkMobileOverflow tm w)"
proof (cases "clientHeight tm w + 5 < scrollHeight tm w")
  case True
  then show ?thesis
    using touches_only_applyMobileStyles
      [of tm "warn (Warn_mobile_overflow (addr tm) (scrollHeight tm w) (clientHeight tm w)) w"]
    by (simp add: checkMobileOverflow_flagged touches_only_def warn_def)
next
  case False
  then show ?thesis by (simp add: checkMobileOverflow_def)
qed

lemma touches_only_checkForOverflow_each: "touches_only {addr tm} w (checkForOverflow_each tm w)"
proof (cases "clientHeight tm w < scrollHeight tm w")
  case True
  then show ?thesis
    using touches_only_fixElementStyles
      [of tm "warn (Warn_long_overflow (addr tm) (scrollHeight tm w) (clientHeight tm w)
                 (take 100 (text_of tm) @ js ''...'')) w"]
    by (simp add: checkForOverflow_each_flagged touches_only_def warn_def)
next
  case False
  then show ?thesis by (simp add: checkForOverflow_each_def)
qed

lemma touches_only_breakLongWords:
  "touches_only (addr ` set (tm # querySelectorAll ''text-message'' tm)) w (breakLongWords tm w)"
  unfolding breakLongWords_def
proof (rule touches_only_fold)
  fix x w
  assume x: "x \<in> set (concat (map (text_nodes_under
             (if has_class ''text-message'' tm then Some tm else None)) (children tm)))"
  obtain owner t where xo: "x = (owner, t)" by (cases x)
  show "touches_only (addr ` set (tm # querySelectorAll ''text-message'' tm)) w
          ((case x of (owner, text) \<Rightarrow> \<lambda>w.
              if hasLongWord text w
              then (case owner of
                      Some parent \<Rightarrow> applyMobileStyles parent
                        [(''wordBreak'', ''break-all''), (''overflowWrap'', ''anywhere'')] w
                    | None \<Rightarrow> w)
              else w) w)"
  proof (cases owner)
    case None
    then show ?thesis by (simp add: xo)
  next
    case (Some e)
    with x xo have "has_class ''text-message'' e \<and> (e = tm \<or> e \<in> set (descendants tm))"
      using breakLongWords_owner by blast
    then have "addr e \<in> addr ` set (tm # querySelectorAll ''text-message'' tm)"
      by (auto simp: querySelectorAll_def)
    then show ?thesis
      using touches_only_applyMobileStyles [of e w]
      by (auto simp: xo Some intro: touches_only_mono)
  qed
qed



lemma nested_text_messages:
  assumes "tm \<in> set (querySelectorAll ''text-message'' m)"
  shows "set (querySelectorAll ''text-message'' tm) \<subseteq> set (querySelectorAll ''text-message'' m)"
  using assms descendants_trans by (auto simp: querySelectorAll_def)

lemma touches_only_fixMobileTextMessage:
  assumes tm: "tm \<in> set (querySelectorAll ''text-message'' m)"
  shows "touches_only (mobile_parts m) w (fixMobileTextMessage tm w)"
proof -
  let ?A = "mobile_parts m"
  let ?w1 = "applyMobileStyles tm (mobileStyles tm w) w"
  let ?w2 = "fold (\<lambda>link w. applyMobileStyles link (linkStyles w) w) (querySelectorAll_tag ''A'' tm) ?w1"
  let ?w3 = "breakLongWords tm ?w2"
  have own: "{addr tm} \<subseteq> ?A"
    using tm by (auto simp: mobile_parts_def)
  have links: "addr link \<in> ?A" if "link \<in> set (querySelectorAll_tag ''A'' tm)" for link
    using tm that by (auto simp: mobile_parts_def)
  have owners: "addr ` set (tm # querySelectorAll ''text-message'' tm) \<subseteq> ?A"
    using tm nested_text_messages [OF tm] by (auto simp: mobile_parts_def)
  have 1: "touches_only ?A w ?w1"
    by (rule touches_only_mono [OF touches_only_applyMobileStyles own])
  have 2: "touches_only ?A ?w1 ?w2"
    by (rule touches_only_fold)
       (auto intro: touches_only_mono [OF touches_only_applyMobileStyles] links)
  have 3: "touches_only ?A ?w2 ?w3"
    by (rule touches_only_mono [OF touches_only_breakLongWords owners])
  have 4: "touches_only ?A ?w3 (checkMobileOverflow tm ?w3)"
    by (rule touches_only_mono [OF touches_only_checkMobileOverflow own])
  from 1 2 3 4 show ?thesis
    unfolding fixMobileTextMessage_def Let_def touches_only_def by simp
qed

lemma touches_only_fixMobileMessage: "touches_only (mobile_parts m) w (fixMobileMessage m w)"
proof -
  let ?A = "mobile_parts m"
  let ?w1 = "applyMobileStyles m
               (mobileMessageStyles w) w"
  let ?w2 = "case querySelector ''message-content'' m of
          Some c \<Rightarrow> applyMobileStyles c
            mobileContentStyles ?w1
        | None \<Rightarrow> ?w1"
  have 1: "touches_only ?A w ?w1"
    by (rule touches_only_mono [OF touches_only_applyMobileStyles]) (simp add: mobile_parts_def)
  have 2: "touches_only ?A ?w1 ?w2"
    by (auto split: option.splits simp: mobile_parts_def
        intro!: touches_only_mono [OF touches_only_applyMobileStyles])
  have 3: "touches_only ?A ?w2 (fold fixMobileTextMessage (querySelectorAll ''text-message'' m) ?w2)"
    by (rule touches_only_fold) (rule touches_only_fixMobileTextMessage)
  from 1 2 3 have "touches_only ?A w (fold fixMobileTextMessage (querySelectorAll ''text-message'' m) ?w2)"
    unfolding touches_only_def by simp
  then show ?thesis
    by (simp add: fixMobileMessage_eq split: option.splits)
qed

lemma touches_only_fixTextMessage:
  assumes tm: "tm \<in> set (querySelectorAll ''text-message'' m)"
  shows "touches_only (long_parts m) w (fixTextMessage tm w)"
proof -
  let ?A = "long_parts m"
  let ?w1 = "fixElementStyles tm (textStyles tm) w"
  let ?f2 = "\<lambda>link. fixElementStyles link
                      [(''wordWrap'', ''break-word''),
                       (''wordBreak'', ''break-all''),
                       (''whiteSpace'', ''normal''),
                       (''overflowWrap'', ''break-word''),
                       (''hyphens'', ''auto'')]"
  let ?w2 = "fold ?f2 (querySelectorAll_tag ''A'' tm) ?w1"
  let ?f3 = "\<lambda>pre. fixElementStyles pre
                      [(''maxHeight'', ''none''),
                       (''height'', ''auto''),
                       (''overflowX'', ''auto''),
                       (''overflowY'', ''visible''),
                       (''whiteSpace'', ''pre-wrap''),
                       (''wordWrap'', ''break-word'')]"
  let ?w3 = "fold ?f3 (querySelectorAll_tag ''PRE'' tm) ?w2"
  let ?f4 = "\<lambda>(parentElement, code) w.
                 if tagName parentElement \<noteq> ''PRE''
                 then fixElementStyles code
                        [(''whiteSpace'', ''pre-wrap''),
                         (''wordWrap'', ''break-word''),
                         (''wordBreak'', ''break-word'')] w
                 else w"
  let ?codes = "filter (\<lambda>(parentElement, code). has_tag ''CODE'' code) (descendants_with_parent tm)"
  let ?w4 = "fold ?f4 ?codes ?w3"
  have 1: "touches_only ?A w ?w1"
    using tm by (auto simp: long_parts_def intro!: touches_only_mono [OF touches_only_fixElementStyles])
  have 2: "touches_only ?A ?w1 ?w2"
    using tm
    by (intro touches_only_fold touches_only_mono [OF touches_only_fixElementStyles])
       (auto simp: long_parts_def)
  have 3: "touches_only ?A ?w2 ?w3"
    using tm
    by (intro touches_only_fold touches_only_mono [OF touches_only_fixElementStyles])
       (auto simp: long_parts_def)
  have code: "addr c \<in> ?A" if "(p, c) \<in> set ?codes" for p c
  proof -
    from that have "c \<in> snd ` set ?codes" by force
    then have "c \<in> set (querySelectorAll_tag ''CODE'' tm)"
      using codes_are_tagged [of "''CODE''" tm] by (metis set_map)
    with tm show ?thesis by (auto simp: long_parts_def)
  qed
  have 4: "touches_only ?A ?w3 ?w4"
  proof (rule touches_only_fold)
    fix x w assume x: "x \<in> set ?codes"
    obtain p c where pc: "x = (p, c)" by (cases x)
    with x have "addr c \<in> ?A" using code by blast
    then show "touches_only ?A w (?f4 x w)"
      by (auto simp: pc intro!: touches_only_mono [OF touches_only_fixElementStyles])
  qed
  from 1 2 3 4 have "touches_only ?A w ?w4"
    unfolding touches_only_def by simp
  then show ?thesis by (simp add: fixTextMessage_def Let_def)
qed

lemma touches_only_checkForOverflow: "touches_only (long_parts m) w (checkForOverflow m w)"
  unfolding checkForOverflow_def
  by (intro touches_only_fold touches_only_mono [OF touches_only_checkForOverflow_each])
     (auto simp: long_parts_def)

lemma touches_only_applyFixes: "touches_only (long_parts m) w (applyFixes m w)"
proof -
  let ?A = "long_parts m"
  let ?w1 = "fixElementStyles m containerStyles w"
  let ?w2 = "case querySelector ''message-content'' m of
             Some c \<Rightarrow> fixElementStyles c contentStyles ?w1
           | None \<Rightarrow> ?w1"
  let ?w3 = "fold fixTextMessage (querySelectorAll ''text-message'' m) ?w2"
  have 1: "touches_only ?A w ?w1"
    by (rule touches_only_mono [OF touches_only_fixElementStyles]) (simp add: long_parts_def)
  have 2: "touches_only ?A ?w1 ?w2"
    by (auto split: option.splits simp: long_parts_def
        intro!: touches_only_mono [OF touches_only_fixElementStyles])
  have 3: "touches_only ?A ?w2 ?w3"
    by (rule touches_only_fold) (rule touches_only_fixTextMessage)
  have 4: "touches_only ?A ?w3 (checkForOverflow m ?w3)"
    by (rule touches_only_checkForOverflow)
  from 1 2 3 4 have "touches_only ?A w (checkForOverflow m ?w3)"
    unfolding touches_only_def by simp
  then show ?thesis by (simp add: applyFixes_eq split: option.splits)
qed



text \<open>
  C7. Take a message without content wrapper whose text messages have no links, no
  \<^verbatim>\<open>pre\<close> and no \<^verbatim>\<open>code\<close> elements. In both scripts the \<^verbatim>\<open>try\<close> block of the fix
  ends normally, the fix styles no element other than the message and its text messages,
  a message with no text message either only receives the container styles, and a scan goes
  on with the following messages.
\<close>

theorem missing_parts_are_absent:
  assumes "querySelector ''message-content'' m = None"
    and "\<forall>tm \<in> set (querySelectorAll ''text-message'' m).
           querySelectorAll_tag ''A'' tm = [] \<and> querySelectorAll_tag ''PRE'' tm = []
           \<and> querySelectorAll_tag ''CODE'' tm = []"
  shows "(\<exists>w'. fixMobileMessage_try m w = Inr w') \<and> (\<exists>w'. applyFixes_try m w = Inr w')
     \<and> touches_only (mobile_parts m) w (fixMobileMessage m w)
     \<and> touches_only (long_parts m) w (applyFixes m w)
     \<and> mobile_parts m = insert (addr m) (addr ` set (querySelectorAll ''text-message'' m))
     \<and> long_parts m = insert (addr m) (addr ` set (querySelectorAll ''text-message'' m))
     \<and> (querySelectorAll ''text-message'' m = [] \<longrightarrow>
          fixMobileMessage m w = applyMobileStyles m
            (mobileMessageStyles w) w
          \<and> applyFixes m w = fixElementStyles m containerStyles w)
     \<and> fold fixMobileMessage (before @ m # after) w
         = fold fixMobileMessage after (fixMobileMessage m (fold fixMobileMessage before w))
     \<and> fold fixMessage (before @ m # after) w
         = fold fixMessage after (fixMessage m (fold fixMessage before w))"
proof -
  have "\<exists>w'. fixMobileMessage_try m w = Inr w'"
    by (simp add: fixMobileMessage_try_def Let_def)
  moreover have "\<exists>w'. applyFixes_try m w = Inr w'"
    by (simp add: applyFixes_try_def Let_def)
  moreover have "mobile_parts m = insert (addr m) (addr ` set (querySelectorAll ''text-message'' m))"
    using assms by (auto simp: mobile_parts_def)
  moreover have "long_parts m = insert (addr m) (addr ` set (querySelectorAll ''text-message'' m))"
    using assms by (auto simp: long_parts_def)
  moreover have "fixMobileMessage m w = applyMobileStyles m
            (mobileMessageStyles w) w"
    if "querySelectorAll ''text-message'' m = []"
    using that assms(1) by (simp add: fixMobileMessage_eq)
  moreover have "applyFixes m w = fixElementStyles m containerStyles w"
    if "querySelectorAll ''text-message'' m = []"
    using that assms(1) by (simp add: applyFixes_eq checkForOverflow_def)
  ultimately show ?thesis
    using touches_only_fixMobileMessage [of m w] touches_only_applyFixes [of m w]
    by simp
qed

lemma first_anonymous_queries [simp]:
  "querySelector ''message-content'' first_anonymous = None"
  "querySelectorAll ''text-message'' first_anonymous
     = [Element 3 ''DIV'' [] None [''text-message''] [Text (js ''one'')]]"
  "addr first_anonymous = 2"
  by (simp_all add: first_anonymous_def querySelector_def querySelectorAll_def has_class_def)

theorem missing_parts_are_absent_witness:
  "styles (fixMobileMessage first_anonymous (desktop_page anonymous_document (100, 100))) 4
     = Map.empty
   \<and> styles (applyFixes first_anonymous (desktop_page anonymous_document (100, 100))) 4
     = Map.empty
   \<and> mobile_parts first_anonymous = {2, 3} \<and> long_parts first_anonymous = {2, 3}"
  using missing_parts_are_absent [of first_anonymous "desktop_page anonymous_document (100, 100)"]
  by (auto simp: touches_only_def querySelectorAll_tag_def has_tag_def)

section \<open>Properties kept by the fixes\<close>

lemma keepsI: "(\<And>w. P w \<Longrightarrow> P (f w)) \<Longrightarrow> keeps P f"
  by (simp add: keeps_def)

lemma keepsD: "keeps P f \<Longrightarrow> P w \<Longrightarrow> P (f w)"
  by (simp add: keeps_def)

lemma keeps_fold:
  assumes "\<And>x. x \<in> set xs \<Longrightarrow> keeps P (f x)"
  shows "keeps P (fold f xs)"
  using assms
proof (induction xs)
  case Nil
  show ?case by (simp add: keeps_def)
next
  case (Cons x xs)
  then have "keeps P (f x)" "keeps P (fold f xs)" by simp_all
  then show ?case by (simp add: keeps_def)
qed

lemma keeps_conj: "keeps P f \<Longrightarrow> keeps Q f \<Longrightarrow> keeps (\<lambda>w. P w \<and> Q w) f"
  by (simp add: keeps_def)

lemma put_keeps:
  assumes "a' = a \<and> p' = p \<longrightarrow> x = Some (u, ''important'')" and "s a p = x"
  shows "put R ((a', p'), u) s a p = x"
  using assms by (auto simp: put_def)

lemma puts_keeps:
  assumes "\<forall>((a', p'), u) \<in> set xs. a' = a \<and> p' = p \<longrightarrow> x = Some (u, ''important'')"
    and "s a p = x"
  shows "puts R xs s a p = x"
  using assms
proof (induction xs arbitrary: s)
  case Nil
  then show ?case by simp
next
  case (Cons y ys)
  obtain a' p' u where y: "y = ((a', p'), u)" by (cases y) auto
  have "put R y s a p = x"
    unfolding y using Cons.prems by (intro put_keeps) (simp_all add: y)
  moreover have "\<forall>((a', p'), u) \<in> set ys. a' = a \<and> p' = p \<longrightarrow> x = Some (u, ''important'')"
    using Cons.prems(1) by simp
  ultimately show ?case
    using Cons.IH by simp
qed

lemma puts_establishes:
  assumes "((a, p), v) \<in> set xs" and "\<not> R a p"
    and "\<forall>((a', p'), u) \<in> set xs. a' = a \<and> p' = p \<longrightarrow> u = v"
  shows "puts R xs s a p = Some (v, ''important'')"
  using assms
proof (induction xs arbitrary: s)
  case Nil
  then show ?case by simp
next
  case (Cons x xs)
  show ?case
  proof (cases "x = ((a, p), v)")
    case True
    have "put R x s a p = Some (v, ''important'')"
      using True Cons.prems(2) by (simp add: put_def)
    moreover have "\<forall>((a', p'), u) \<in> set xs. a' = a \<and> p' = p \<longrightarrow> Some (v, ''important'') = Some (u, ''important'')"
      using Cons.prems(3) by auto
    ultimately show ?thesis
      using puts_keeps [of xs a p "Some (v, ''important'')" "put R x s" R] by simp
  next
    case False
    with Cons.prems have "((a, p), v) \<in> set xs" by simp
    with Cons show ?thesis by simp
  qed
qed

lemma agrees_entry_writes:
  "agrees p v entries \<Longrightarrow>
     \<forall>((a', p'), u) \<in> set (entry_writes el entries). a' = a \<and> p' = p
        \<longrightarrow> Some (v, ''important'') = Some (u, ''important'')"
  by (auto simp: agrees_def entry_writes_def)

lemma keeps_style_applyMobileStyles:
  assumes "\<And>w. agrees p v (entries w)"
  shows "keeps (\<lambda>w. styles w a p = Some (v, ''important''))
           (\<lambda>w. applyMobileStyles el (entries w) w)"
  using puts_keeps [OF agrees_entry_writes [OF assms]]
  by (simp add: keeps_def applyMobileStyles_eq)

lemma keeps_style_fixElementStyles:
  assumes "agrees p v entries"
  shows "keeps (\<lambda>w. styles w a p = Some (v, ''important'')) (fixElementStyles el entries)"
  using puts_keeps [OF agrees_entry_writes [OF assms]]
  by (simp add: keeps_def fixElementStyles_eq)

lemma keeps_console_applyMobileStyles:
  "keeps (\<lambda>w. e \<in> set (console w)) (\<lambda>w. applyMobileStyles el (entries w) w)"
  by (simp add: keeps_def applyMobileStyles_eq)

lemma keeps_console_fixElementStyles:
  "keeps (\<lambda>w. e \<in> set (console w)) (fixElementStyles el entries)"
  by (simp add: keeps_def fixElementStyles_eq)

lemma keeps_small_restyled:
  assumes "\<And>w. restyled w (f w)"
  shows "keeps (\<lambda>w. m_isSmallScreen w = b) f"
  using assms by (simp add: keeps_def restyled_def)

lemma stable_applyMobileStyles:
  "stable P \<Longrightarrow> (\<And>w. settled_entries (entries w)) \<Longrightarrow> P w \<Longrightarrow> P (applyMobileStyles el (entries w) w)"
  unfolding stable_def keeps_def by blast

lemma stable_warn: "stable P \<Longrightarrow> P w \<Longrightarrow> P (warn e w)"
  unfolding stable_def keeps_def by blast

lemma stable_setTimeout: "stable P \<Longrightarrow> P w \<Longrightarrow> P (setTimeout f d w)"
  unfolding stable_def keeps_def by blast

lemma settled_entries_simps [simp]:
  "settled_entries (mobileStyles tm w)"
  "settled_entries (linkStyles w)"
  "settled_entries [(''height'', ''auto''), (''minHeight'', x), (''overflow'', ''visible'')]"
  "settled_entries [(''wordBreak'', ''break-all''), (''overflowWrap'', ''anywhere'')]"
  "settled_entries mobileContentStyles"
  by (auto simp: settled_entries_def settled_def agrees_def mobileStyles_def linkStyles_def
      mobileContentStyles_def)

lemma keeps_checkMobileOverflow:
  assumes "stable P"
  shows "keeps P (checkMobileOverflow tm)"
proof (rule keepsI)
  fix w assume P: "P w"
  let ?w1 = "warn (Warn_mobile_overflow (addr tm) (scrollHeight tm w) (clientHeight tm w)) w"
  have "P ?w1" using assms P by (rule stable_warn)
  then have "P (applyMobileStyles tm
       [(''height'', ''auto''), (''minHeight'', show_int (scrollHeight tm ?w1) @ ''px''),
        (''overflow'', ''visible'')] ?w1)"
    using stable_applyMobileStyles [OF assms, of
        "\<lambda>w. [(''height'', ''auto''), (''minHeight'', show_int (scrollHeight tm w) @ ''px''),
        (''overflow'', ''visible'')]" ?w1 tm]
    by simp
  then show "P (checkMobileOverflow tm w)"
    using P assms by (simp add: checkMobileOverflow_def Let_def stable_setTimeout)
qed

lemma keeps_breakLongWords:
  assumes "stable P"
  shows "keeps P (breakLongWords tm)"
  unfolding breakLongWords_def
proof (rule keeps_fold)
  fix x :: "node option \<times> jsstring"
  obtain owner t where x: "x = (owner, t)" by (cases x)
  show "keeps P (case x of (owner, text) \<Rightarrow> \<lambda>w.
              if hasLongWord text w
              then (case owner of
                      Some parent \<Rightarrow> applyMobileStyles parent
                        [(''wordBreak'', ''break-all''), (''overflowWrap'', ''anywhere'')] w
                    | None \<Rightarrow> w)
              else w)"
    using stable_applyMobileStyles [OF assms,
        of "\<lambda>w. [(''wordBreak'', ''break-all''), (''overflowWrap'', ''anywhere'')]"]
    by (auto simp: x keeps_def split: option.splits)
qed

lemma keeps_fixMobileTextMessage:
  assumes "stable P"
  shows "keeps P (fixMobileTextMessage tm)"
proof (rule keepsI)
  fix w assume P: "P w"
  let ?w1 = "applyMobileStyles tm (mobileStyles tm w) w"
  let ?w2 = "fold (\<lambda>link w. applyMobileStyles link (linkStyles w) w) (querySelectorAll_tag ''A'' tm) ?w1"
  let ?w3 = "breakLongWords tm ?w2"
  have "P ?w1"
    using stable_applyMobileStyles [OF assms, of "mobileStyles tm" w tm] P by simp
  moreover have "keeps P (fold (\<lambda>link w. applyMobileStyles link (linkStyles w) w) (querySelectorAll_tag ''A'' tm))"
    by (rule keeps_fold) (rule keepsI, rule stable_applyMobileStyles [OF assms], simp_all)
  ultimately have "P ?w2" by (rule keepsD [rotated])
  then have "P ?w3" using keeps_breakLongWords [OF assms] by (rule keepsD [rotated])
  then have "P (checkMobileOverflow tm ?w3)"
    using keeps_checkMobileOverflow [OF assms] by (rule keepsD [rotated])
  then show "P (fixMobileTextMessage tm w)"
    by (simp add: fixMobileTextMessage_def Let_def)
qed

lemma stable_console [simp]: "stable (\<lambda>w. e \<in> set (console w))"
  by (simp add: stable_def keeps_def applyMobileStyles_eq warn_def setTimeout_def)

lemma stable_style:
  assumes "settled p v"
  shows "stable (\<lambda>w. styles w a p = Some (v, ''important''))"
proof -
  have "keeps (\<lambda>w. styles w a p = Some (v, ''important''))
          (\<lambda>w. applyMobileStyles el (entries w) w)"
    if "\<forall>w. settled_entries (entries w)" for el entries
    using that assms by (intro keeps_style_applyMobileStyles) (simp add: settled_entries_def)
  then show ?thesis
    by (simp add: stable_def) (simp add: keeps_def warn_def setTimeout_def)
qed

lemma stable_conj: "stable P \<Longrightarrow> stable Q \<Longrightarrow> stable (\<lambda>w. P w \<and> Q w)"
  by (simp add: stable_def keeps_def)

lemma stable_small [simp]: "stable (\<lambda>w. m_isSmallScreen w = b)"
  by (simp add: stable_def keeps_def applyMobileStyles_eq warn_def setTimeout_def)

lemma stable_raises [simp]: "stable (\<lambda>w. style_raises w = R)"
  by (simp add: stable_def keeps_def applyMobileStyles_eq warn_def setTimeout_def)







section \<open>A scan goes on after a failure\<close>

lemma mobileMessageStyles_member:
  "(q, v) \<in> set (mobileMessageStyles w) \<longleftrightarrow>
     (q = ''maxWidth'' \<and> v = (if m_isSmallScreen w then ''95%'' else ''90%''))
     \<or> (q = ''maxHeight'' \<and> v = ''none'')
     \<or> (q = ''height'' \<and> v = ''auto'')
     \<or> (q = ''overflow'' \<and> v = ''visible'')"
  by (simp add: mobileMessageStyles_def)

lemma mobileMessageStyles_settled:
  "(q, v) \<in> set (mobileMessageStyles w) \<Longrightarrow> settled (cssProperty q) v"
  unfolding mobileMessageStyles_member
  by (elim disjE conjE; hypsubst; simp add: settled_def)

lemma mobileMessageStyles_supported:
  "(q, v) \<in> set (mobileMessageStyles w) \<Longrightarrow> \<not> unsupported (cssProperty q)"
  unfolding mobileMessageStyles_member
  by (elim disjE conjE; hypsubst; simp)

lemma mobileMessageStyles_agrees:
  "(q, v) \<in> set (mobileMessageStyles w) \<Longrightarrow> agrees (cssProperty q) v (mobileMessageStyles w)"
  unfolding mobileMessageStyles_member
  by (elim disjE conjE; hypsubst; simp add: agrees_def mobileMessageStyles_def)

lemma mobileMessageStyles_small:
  "m_isSmallScreen w' = m_isSmallScreen w \<Longrightarrow> mobileMessageStyles w' = mobileMessageStyles w"
  by (simp add: mobileMessageStyles_def)

lemma fixMobileMessage_after:
  assumes "stable P" and "P (applyMobileStyles m (mobileMessageStyles w) w)"
  shows "P (fixMobileMessage m w)"
proof -
  let ?w1 = "applyMobileStyles m (mobileMessageStyles w) w"
  let ?w2 = "case querySelector ''message-content'' m of
          Some c \<Rightarrow> applyMobileStyles c mobileContentStyles ?w1
        | None \<Rightarrow> ?w1"
  have "P ?w2"
    using assms stable_applyMobileStyles [OF assms(1), of "\<lambda>w. mobileContentStyles" ?w1]
    by (simp split: option.splits)
  moreover have "keeps P (fold fixMobileTextMessage (querySelectorAll ''text-message'' m))"
    by (rule keeps_fold) (rule keeps_fixMobileTextMessage [OF assms(1)])
  ultimately have "P (fold fixMobileTextMessage (querySelectorAll ''text-message'' m) ?w2)"
    by (rule keepsD [rotated])
  then show ?thesis by (simp add: fixMobileMessage_eq split: option.splits)
qed

lemma fixMobileMessage_keeps_override:
  assumes "(q, v) \<in> set (mobileMessageStyles w0)"
  shows "keeps (\<lambda>w. m_isSmallScreen w = m_isSmallScreen w0
                  \<and> styles w a (cssProperty q) = Some (v, ''important''))
           (fixMobileMessage m)"
proof (rule keepsI)
  let ?P = "\<lambda>w. m_isSmallScreen w = m_isSmallScreen w0
                  \<and> styles w a (cssProperty q) = Some (v, ''important'')"
  fix w :: world assume P: "?P w"
  let ?w1 = "applyMobileStyles m (mobileMessageStyles w) w"
  have same: "mobileMessageStyles w = mobileMessageStyles w0"
    by (rule mobileMessageStyles_small) (use P in simp)
  have "agrees (cssProperty q) v (mobileMessageStyles w)"
    unfolding same by (rule mobileMessageStyles_agrees [OF assms])
  then have "\<forall>((a', p'), u) \<in> set (entry_writes m (mobileMessageStyles w)).
      a' = a \<and> p' = cssProperty q \<longrightarrow> Some (v, ''important'') = Some (u, ''important'')"
    by (rule agrees_entry_writes)
  then have "puts (skipped w) (entry_writes m (mobileMessageStyles w)) (styles w) a (cssProperty q)
      = Some (v, ''important'')"
    by (rule puts_keeps [where s = "styles w"]) (use P in simp)
  then have "styles ?w1 a (cssProperty q) = Some (v, ''important'')"
    by (simp add: applyMobileStyles_eq)
  moreover have "m_isSmallScreen ?w1 = m_isSmallScreen w0"
    using P by (simp add: applyMobileStyles_eq)
  ultimately have "?P ?w1" by simp
  moreover have "stable ?P"
    by (intro stable_conj stable_small stable_style mobileMessageStyles_settled [OF assms])
  ultimately show "?P (fixMobileMessage m w)"
    by (rule fixMobileMessage_after [rotated])
qed

lemma fixMobileMessage_sets_override:
  assumes "(q, v) \<in> set (mobileMessageStyles w)"
    and "\<not> style_raises w (addr m) (cssProperty q)"
  shows "styles (fixMobileMessage m w) (addr m) (cssProperty q) = Some (v, ''important'')"
proof -
  have "((addr m, cssProperty q), v) \<in> set (entry_writes m (mobileMessageStyles w))"
    using assms(1) by (force simp: entry_writes_def)
  moreover have "\<not> skipped w (addr m) (cssProperty q)"
    using assms(2) mobileMessageStyles_supported [OF assms(1)] by simp
  moreover have "\<forall>((a', p'), u) \<in> set (entry_writes m (mobileMessageStyles w)).
      a' = addr m \<and> p' = cssProperty q \<longrightarrow> u = v"
    using mobileMessageStyles_agrees [OF assms(1)] by (auto simp: agrees_def entry_writes_def)
  ultimately have "puts (skipped w) (entry_writes m (mobileMessageStyles w)) (styles w)
      (addr m) (cssProperty q) = Some (v, ''important'')"
    by (rule puts_establishes)
  then have "styles (applyMobileStyles m (mobileMessageStyles w) w) (addr m) (cssProperty q)
      = Some (v, ''important'')"
    by (simp add: applyMobileStyles_eq)
  then show ?thesis
    by (rule fixMobileMessage_after [rotated])
       (rule stable_style [OF mobileMessageStyles_settled [OF assms(1)]])
qed



lemma scan_sets_override:
  assumes "m \<in> set ms" and "(q, v) \<in> set (mobileMessageStyles w)"
    and "\<not> style_raises w (addr m) (cssProperty q)"
  shows "styles (fold fixMobileMessage ms w) (addr m) (cssProperty q) = Some (v, ''important'')"
  using assms
proof (induction ms arbitrary: w)
  case Nil
  then show ?case by simp
next
  case (Cons x xs)
  let ?w = "fixMobileMessage x w"
  have r: "restyled w ?w" by simp
  show ?case
  proof (cases "m \<in> set xs")
    case True
    moreover have "(q, v) \<in> set (mobileMessageStyles ?w)"
      using Cons.prems(2) mobileMessageStyles_small [of ?w w] restyledD(5) [OF r] by simp
    moreover have "\<not> style_raises ?w (addr m) (cssProperty q)"
      using Cons.prems(3) restyledD(3) [OF r] by simp
    ultimately show ?thesis using Cons.IH by simp
  next
    case False
    with Cons.prems have x: "x = m" by simp
    let ?P = "\<lambda>w'. m_isSmallScreen w' = m_isSmallScreen w
                  \<and> styles w' (addr m) (cssProperty q) = Some (v, ''important'')"
    have "?P ?w"
      using fixMobileMessage_sets_override [OF Cons.prems(2,3)] restyledD(5) [OF r] by (simp add: x)
    moreover have "keeps ?P (fold fixMobileMessage xs)"
      by (rule keeps_fold) (rule fixMobileMessage_keeps_override [OF Cons.prems(2)])
    ultimately have "?P (fold fixMobileMessage xs ?w)" by (rule keepsD [rotated])
    then show ?thesis by simp
  qed
qed






lemma settled_long_entries_simps [simp]:
  "settled_long_entries containerStyles"
  "settled_long_entries contentStyles"
  "settled_long_entries (textStyles tm)"
  "settled_long_entries [(''height'', x), (''minHeight'', y)]"
  "settled_long_entries
     [(''wordWrap'', ''break-word''), (''wordBreak'', ''break-all''), (''whiteSpace'', ''normal''),
      (''overflowWrap'', ''break-word''), (''hyphens'', ''auto'')]"
  "settled_long_entries
     [(''maxHeight'', ''none''), (''height'', ''auto''), (''overflowX'', ''auto''),
      (''overflowY'', ''visible''), (''whiteSpace'', ''pre-wrap''), (''wordWrap'', ''break-word'')]"
  "settled_long_entries
     [(''whiteSpace'', ''pre-wrap''), (''wordWrap'', ''break-word''), (''wordBreak'', ''break-word'')]"
  by (auto simp: settled_long_entries_def settled_long_def agrees_def containerStyles_def
      contentStyles_def textStyles_def)









lemma puts_entry_sets:
  assumes "(q, v) \<in> set entries" and "agrees (cssProperty q) v entries"
    and "\<not> R (addr el) (cssProperty q)"
  shows "puts R (entry_writes el entries) s (addr el) (cssProperty q) = Some (v, ''important'')"
proof (rule puts_establishes)
  show "((addr el, cssProperty q), v) \<in> set (entry_writes el entries)"
    using assms(1) by (force simp: entry_writes_def)
  show "\<not> R (addr el) (cssProperty q)" by (rule assms(3))
  show "\<forall>((a', p'), u) \<in> set (entry_writes el entries).
      a' = addr el \<and> p' = cssProperty q \<longrightarrow> u = v"
    using assms(2) by (auto simp: agrees_def entry_writes_def)
qed











lemma stable_long_console [simp]: "stable_long (\<lambda>w. e \<in> set (console w))"
  by (simp add: stable_long_def keeps_def fixElementStyles_eq warn_def setTimeout_def)


lemma style_raises_fixMessage [simp]: "style_raises (fixMessage x w) = style_raises w"
  using restyledD(3) [OF restyled_applyFixes, of x w] by (simp add: fixMessage_def Let_def)











lemma anonymous_messages [simp]:
  "querySelectorAll ''message'' anonymous_document = [first_anonymous, second_anonymous]"
  by (simp add: anonymous_document_def querySelectorAll_def has_class_def first_anonymous_def
      second_anonymous_def)

lemma brittle_page_fields [simp]:
  "style_raises (brittle_page doc heights) a p \<longleftrightarrow> a = 2 \<and> p = ''max-height''"
  "document (brittle_page doc heights) = doc"
  "m_isSmallScreen (brittle_page doc heights) = False"
  "styles (brittle_page doc heights) a = Map.empty"
  "console (brittle_page doc heights) = []"
  by (simp_all add: brittle_page_def desktop_page_def)

lemma addr_second_anonymous [simp]: "addr second_anonymous = 4"
  by (simp add: second_anonymous_def)

lemma plain_message_fields [simp]:
  "messageId plain_message = ''m1''" "addr plain_message = 2"
  "has_class ''message'' plain_message" "is_element plain_message"
  by (simp_all add: plain_message_def messageId_def has_class_def is_element_def)

lemma two_messages [simp]:
  "querySelectorAll ''message'' two_messages_document = [plain_message, second_message]"
  by (simp add: two_messages_document_def querySelectorAll_def has_class_def plain_message_def
      second_message_def plain_text_def)

lemma fixedElements_brittle_page [simp]: "fixedElements (brittle_page doc heights) = {}"
  by (simp add: brittle_page_def desktop_page_def)

lemma second_message_fields [simp]:
  "addr second_message = 4" "messageId second_message = ''m2''"
  by (simp_all add: second_message_def messageId_def)


section \<open>Priority and values of the style maps\<close>






section \<open>Scans and the set of fixed elements\<close>

lemma fold_commute:
  assumes "\<And>x w. f x (g w) = g (f x w)"
  shows "fold f xs (g w) = g (fold f xs w)"
  by (induction xs arbitrary: w) (simp_all add: assms)

lemma applyMobileStyles_tracked:
  "applyMobileStyles el entries (w\<lparr>fixedElements := F\<rparr>)
     = (applyMobileStyles el entries w)\<lparr>fixedElements := F\<rparr>"
  by (simp add: applyMobileStyles_eq raised_def skipped_def)

lemma checkMobileOverflow_tracked:
  "checkMobileOverflow tm (w\<lparr>fixedElements := F\<rparr>) = (checkMobileOverflow tm w)\<lparr>fixedElements := F\<rparr>"
  by (simp add: checkMobileOverflow_def Let_def scrollHeight_def clientHeight_def warn_def
      setTimeout_def applyMobileStyles_eq raised_def skipped_def)

lemma breakLongWords_tracked:
  "breakLongWords tm (w\<lparr>fixedElements := F\<rparr>) = (breakLongWords tm w)\<lparr>fixedElements := F\<rparr>"
proof -
  have "hasLongWord t (v\<lparr>fixedElements := F\<rparr>) = hasLongWord t v" for t v
    by (simp add: hasLongWord_def)
  then show ?thesis
    unfolding breakLongWords_def
    by (intro fold_commute) (simp add: applyMobileStyles_tracked split: option.splits prod.splits)
qed

lemma fixMobileTextMessage_tracked:
  "fixMobileTextMessage tm (w\<lparr>fixedElements := F\<rparr>)
     = (fixMobileTextMessage tm w)\<lparr>fixedElements := F\<rparr>"
proof -
  have links: "fold (\<lambda>link w. applyMobileStyles link (linkStyles w) w) ls (v\<lparr>fixedElements := F\<rparr>)
      = (fold (\<lambda>link w. applyMobileStyles link (linkStyles w) w) ls v)\<lparr>fixedElements := F\<rparr>" for ls v
    by (rule fold_commute) (simp add: applyMobileStyles_tracked linkStyles_def)
  have "mobileStyles tm (w\<lparr>fixedElements := F\<rparr>) = mobileStyles tm w"
    by (simp add: mobileStyles_def)
  then show ?thesis
    by (simp add: fixMobileTextMessage_def Let_def applyMobileStyles_tracked links
        breakLongWords_tracked checkMobileOverflow_tracked)
qed

lemma fixMobileMessage_tracked:
  "fixMobileMessage m (w\<lparr>fixedElements := F\<rparr>) = (fixMobileMessage m w)\<lparr>fixedElements := F\<rparr>"
proof -
  have texts: "fold fixMobileTextMessage ts (v\<lparr>fixedElements := F\<rparr>)
      = (fold fixMobileTextMessage ts v)\<lparr>fixedElements := F\<rparr>" for ts v
    by (rule fold_commute) (rule fixMobileTextMessage_tracked)
  have "mobileMessageStyles (w\<lparr>fixedElements := F\<rparr>) = mobileMessageStyles w"
    by (simp add: mobileMessageStyles_def)
  then show ?thesis
    by (simp add: fixMobileMessage_eq applyMobileStyles_tracked texts split: option.splits)
qed

lemma applyMobileFixes_tracked:
  "applyMobileFixes (w\<lparr>fixedElements := F\<rparr>) = (applyMobileFixes w)\<lparr>fixedElements := F\<rparr>"
  unfolding applyMobileFixes_def
  using fold_commute [of fixMobileMessage "\<lambda>w. w\<lparr>fixedElements := F\<rparr>", OF fixMobileMessage_tracked]
  by simp

text \<open>
  C3, as amended. \<^verbatim>\<open>LongTextFix\<close> leaves the page as it is for a message whose identifier
  is tracked, and fixes and then tracks any other message; so its interval scan and its
  mutation callback change nothing when every message concerned is tracked, and a scan
  right after a scan changes nothing. \<^verbatim>\<open>MobileTextFix\<close> keeps no such set: its scans,
  among them the one on a resize event, do the same whatever the set holds.
\<close>

theorem tracked_messages_are_skipped:
  "(messageId m \<in> fixedElements w \<longrightarrow> fixMessage m w = w)
   \<and> (messageId m \<notin> fixedElements w \<longrightarrow>
        fixMessage m w
          = (applyFixes m w)\<lparr>fixedElements := insert (messageId m) (fixedElements w)\<rparr>)
   \<and> ((\<forall>m \<in> set (querySelectorAll ''message'' (document w)). messageId m \<in> fixedElements w)
        \<longrightarrow> run Long_fixAllMessages mutations w = w)
   \<and> ((\<forall>el \<in> set (added_elements mutations).
          \<forall>m \<in> set (if has_class ''message'' el then [el] else querySelectorAll ''message'' el).
            messageId m \<in> fixedElements w)
        \<longrightarrow> run Long_mutations mutations w = w)
   \<and> fixAllMessages (fixAllMessages w) = fixAllMessages w
   \<and> applyMobileFixes (w\<lparr>fixedElements := F\<rparr>) = (applyMobileFixes w)\<lparr>fixedElements := F\<rparr>
   \<and> run Mobile_resize mutations (w\<lparr>fixedElements := F\<rparr>)
        = (run Mobile_resize mutations w)\<lparr>fixedElements := F\<rparr>"
proof -
  have "fixMessage m w
          = (applyFixes m w)\<lparr>fixedElements := insert (messageId m) (fixedElements w)\<rparr>"
    if "messageId m \<notin> fixedElements w"
    using that by (simp add: fixMessage_def Let_def)
  moreover have "run Mobile_resize mutations (w\<lparr>fixedElements := F\<rparr>)
        = (run Mobile_resize mutations w)\<lparr>fixedElements := F\<rparr>"
  proof -
    have "run Mobile_resize mutations (w\<lparr>fixedElements := F\<rparr>)
        = applyMobileFixes ((w\<lparr>m_isSmallScreen := innerWidth w \<le> 480\<rparr>)\<lparr>fixedElements := F\<rparr>)"
      by (cases w) simp
    also have "\<dots> = (applyMobileFixes (w\<lparr>m_isSmallScreen := innerWidth w \<le> 480\<rparr>))\<lparr>fixedElements := F\<rparr>"
      by (rule applyMobileFixes_tracked)
    finally show ?thesis by simp
  qed
  ultimately show ?thesis
    using fixMessage_tracked [of m w] fixAllMessages_tracked [of w]
      fold_fixMessageElement_tracked [of "added_elements mutations" w]
      fixAllMessages_twice [of w] applyMobileFixes_tracked [where w = w and F = F]
    by simp
qed

lemma plain_document_messages [simp]:
  "querySelectorAll ''message'' plain_document = [plain_message]"
  by (simp add: plain_document_def plain_message_def plain_text_def querySelectorAll_def
      has_class_def)

lemma revisited_page_fields [simp]:
  "fixedElements revisited_page = {''m1''}"
  "document revisited_page = plain_document"
  "styles revisited_page a = Map.empty"
  "style_raises revisited_page a p = False"
  "innerWidth revisited_page = 390"
  by (simp_all add: revisited_page_def phone_page_def)

theorem tracked_messages_are_skipped_witness:
  "fixMessage plain_message revisited_page = revisited_page
   \<and> run Long_fixAllMessages [] revisited_page = revisited_page
   \<and> run Long_mutations [\<lparr>mutation_type = ''childList'', addedNodes = [plain_message]\<rparr>]
        revisited_page = revisited_page
   \<and> fixMessage plain_message (desktop_page plain_document (100, 100))
      = (applyFixes plain_message (desktop_page plain_document (100, 100)))
          \<lparr>fixedElements := {''m1''}\<rparr>"
  using tracked_messages_are_skipped [of plain_message revisited_page "[]"]
    tracked_messages_are_skipped [of plain_message revisited_page
      "[\<lparr>mutation_type = ''childList'', addedNodes = [plain_message]\<rparr>]"]
    tracked_messages_are_skipped [of plain_message "desktop_page plain_document (100, 100)" "[]"]
  by (simp add: added_elements_def)

text \<open>
  C3 as stated fails for the resize event: the message \<^verbatim>\<open>m1\<close> is tracked, and the scan
  of \<^verbatim>\<open>MobileTextFix\<close> on a resize event still sets its \<^verbatim>\<open>max-width\<close>.
\<close>

theorem resize_restyles_tracked_counterexample:
  "messageId plain_message \<in> fixedElements revisited_page
   \<and> plain_message \<in> set (querySelectorAll ''message'' (document revisited_page))
   \<and> styles revisited_page 2 ''max-width'' = None
   \<and> styles (run Mobile_resize [] revisited_page) 2 ''max-width'' = Some (''95%'', ''important'')"
proof -
  let ?w = "revisited_page\<lparr>m_isSmallScreen := innerWidth revisited_page \<le> 480\<rparr>"
  have "styles (fold fixMobileMessage [plain_message] ?w) (addr plain_message)
      (cssProperty ''maxWidth'') = Some (''95%'', ''important'')"
    by (rule scan_sets_override) (simp_all add: mobileMessageStyles_def)
  then show ?thesis
    by (simp add: applyMobileFixes_def)
qed

section \<open>A manual fix of unidentified messages\<close>

lemma long_parts_first_anonymous: "long_parts first_anonymous = {2, 3}"
  by (auto simp: long_parts_def querySelectorAll_tag_def has_tag_def)

text \<open>
  C4 fails on a page with two messages that have neither a message id nor an id:
  \<^verbatim>\<open>manualFix\<close> clears the set and scans, the first message is fixed and tracked as
  \<^verbatim>\<open>'unknown'\<close>, and the second message and its text message keep their styles untouched.
\<close>

theorem manualFix_leaves_out_second_unidentified:
  "querySelectorAll ''message'' (document (desktop_page anonymous_document (100, 100)))
     = [first_anonymous, second_anonymous]
   \<and> fixedElements (manualFix (desktop_page anonymous_document (100, 100))) = {''unknown''}
   \<and> styles (manualFix (desktop_page anonymous_document (100, 100))) 2 ''height''
     = Some (''auto'', ''important'')
   \<and> styles (manualFix (desktop_page anonymous_document (100, 100))) 4 = Map.empty
   \<and> styles (manualFix (desktop_page anonymous_document (100, 100))) 5 = Map.empty"
proof -
  let ?v = "(warn Log_long_manual (desktop_page anonymous_document (100, 100)))\<lparr>fixedElements := {}\<rparr>"
  have ids: "messageId first_anonymous = ''unknown''" "messageId second_anonymous = ''unknown''"
    by (simp_all add: messageId_def first_anonymous_def second_anonymous_def)
  have cls: "has_class ''message'' first_anonymous" "has_class ''message'' second_anonymous"
    by (simp_all add: has_class_def first_anonymous_def second_anonymous_def)
  have first: "fixMessage first_anonymous ?v = (applyFixes first_anonymous ?v)\<lparr>fixedElements := {''unknown''}\<rparr>"
    by (simp add: fixMessage_def Let_def ids warn_def)
  have "manualFix (desktop_page anonymous_document (100, 100))
      = fixMessage second_anonymous (fixMessage first_anonymous ?v)"
    by (simp add: manualFix_def fixAllMessages_def warn_def fixMessageElement_message cls)
  also have "\<dots> = fixMessage first_anonymous ?v"
    by (rule fixMessage_tracked) (simp add: fixedElements_fixMessage ids)
  finally have eq: "manualFix (desktop_page anonymous_document (100, 100))
      = (applyFixes first_anonymous ?v)\<lparr>fixedElements := {''unknown''}\<rparr>"
    using first by simp
  have other: "styles (applyFixes first_anonymous ?v) a = Map.empty" if "a \<notin> {2, 3}" for a
    using touches_only_applyFixes [of first_anonymous ?v] that
    by (simp add: touches_only_def long_parts_first_anonymous warn_def)
  have "(''height'', ''auto'') \<in> set containerStyles"
    and "agrees (cssProperty ''height'') ''auto'' containerStyles"
    by (simp_all add: containerStyles_def agrees_def)
  then have "styles (fixElementStyles first_anonymous containerStyles ?v) (addr first_anonymous)
      (cssProperty ''height'') = Some (''auto'', ''important'')"
    using puts_entry_sets [of "''height''" "''auto''" containerStyles "skipped ?v"
        first_anonymous "styles ?v"]
    by (simp add: fixElementStyles_eq warn_def)
  then have own: "styles (applyFixes first_anonymous ?v) 2 ''height'' = Some (''auto'', ''important'')"
    by (simp add: applyFixes_eq fixTextMessage_def querySelectorAll_tag_def has_tag_def
        descendants_with_parent_def checkForOverflow_def checkForOverflow_each_def
        scrollHeight_def clientHeight_def warn_def desktop_page_def
        fixElementStyles_eq textStyles_def has_class_def put_def)
  from eq other own show ?thesis by simp
qed

end
